theory Spec2Isabelle
  imports Complex_Main
begin

section \<open>JavaScript values\<close>

text \<open>
  A JavaScript \<open>number\<close> is modelled by a real: the finite numbers, with exact
  arithmetic. \<open>NaN\<close> and the infinities are outside the model. A value that may be
  \<open>undefined\<close> (what reading \<open>obj.field\<close> gives for a \<open>field?: T\<close>, a missing
  argument, the result of \<open>x?.m()\<close> on a \<open>null\<close> reference) is an \<open>option\<close>,
  with \<open>None\<close> for \<open>undefined\<close>.
\<close>

text \<open>
  A property of an object that the code copies with an object spread. The key is
  absent, or it is present and holds a value; the value held may itself be
  \<open>undefined\<close> (\<open>{enabled: undefined}\<close> has the key \<open>enabled\<close>). A spread copies
  the keys that are present, whatever they hold; reading \<open>obj.key\<close> gives
  \<open>undefined\<close> for an absent key and the value held otherwise.
\<close>

datatype 'v property = Absent | Holds 'v

fun read_property :: "'a option property \<Rightarrow> 'a option" where
  "read_property Absent = None"
| "read_property (Holds v) = v"

text \<open>Exceptions: \<open>new Error(message)\<close>, and the \<open>TypeError\<close> of \<open>undefined.m()\<close>.\<close>

datatype exn = JsError string | TypeError

text \<open>\<open>a || d\<close> on a number that may be undefined: \<open>undefined\<close> and \<open>0\<close> are falsy.\<close>

definition or_num :: "real option \<Rightarrow> real \<Rightarrow> real" where
  "or_num a d = (case a of None \<Rightarrow> d | Some x \<Rightarrow> if x = 0 then d else x)"

text \<open>\<open>a || d\<close> on an array that may be undefined: every array is truthy, the empty one too.\<close>

definition or_array :: "'a list option \<Rightarrow> 'a list \<Rightarrow> 'a list" where
  "or_array a d = (case a of None \<Rightarrow> d | Some xs \<Rightarrow> xs)"

text \<open>\<open>a || d\<close> on an object reference that may be null: every object is truthy.\<close>

definition or_ref :: "'a option \<Rightarrow> 'a option \<Rightarrow> 'a option" where
  "or_ref a d = (case a of None \<Rightarrow> d | Some x \<Rightarrow> Some x)"

text \<open>\<open>a ?? d\<close>: only \<open>undefined\<close> gives the default.\<close>

definition nullish :: "'a option \<Rightarrow> 'a \<Rightarrow> 'a" where
  "nullish a d = (case a of None \<Rightarrow> d | Some x \<Rightarrow> x)"

text \<open>\<open>b !== false\<close> on a boolean that may be undefined.\<close>

definition not_false :: "bool option \<Rightarrow> bool" where
  "not_false b = (b \<noteq> Some False)"

text \<open>A value in a condition: \<open>undefined\<close> and \<open>false\<close> are falsy.\<close>

definition truthy :: "bool option \<Rightarrow> bool" where
  "truthy b = (b = Some True)"

text \<open>
  One key of \<open>{...defaults, ...config}\<close>: what \<open>config\<close> holds under the key where
  the key is present, be it \<open>undefined\<close>, and the default otherwise.
\<close>

fun spread :: "'v \<Rightarrow> 'v property \<Rightarrow> 'v" where
  "spread d Absent = d"
| "spread d (Holds v) = v"

text \<open>\<open>xs.indexOf(x)\<close>: the first index of \<open>x\<close>, or \<open>-1\<close>.\<close>

fun indexOf :: "'a list \<Rightarrow> 'a \<Rightarrow> int" where
  "indexOf [] x = -1"
| "indexOf (y # ys) x =
     (if y = x then 0 else (let i = indexOf ys x in if i < 0 then -1 else i + 1))"

text \<open>\<open>xs[i]\<close>: \<open>undefined\<close> out of range.\<close>

definition at_index :: "'a list \<Rightarrow> int \<Rightarrow> 'a option" where
  "at_index xs i = (if 0 \<le> i \<and> i < int (length xs) then Some (xs ! nat i) else None)"

section \<open>Feature configuration (types.ts)\<close>

text \<open>A feature toggle \<open>boolean | Config | undefined\<close>.\<close>

datatype 'c feature = Bool bool | Undefined | Config 'c

text \<open>
  The speed and the skip normalizer read each key of the object (\<open>config.key\<close>), and
  so does \<open>getSpeedOptions\<close>; a read gives \<open>undefined\<close> for an absent key and for
  a key that holds \<open>undefined\<close> alike, so a field of these two objects is what the
  read gives.
\<close>

record SpeedConfig =
  sp_enabled :: "bool option"
  sp_options :: "real list option"
  sp_defaultSpeed :: "real option"

text \<open>
  \<open>Required<SpeedConfig>\<close>, what \<open>normalizeSpeedConfig\<close> returns (and likewise
  \<open>Required<SkipConfig>\<close> below): every field is a literal, a default, or the value of
  \<open>a !== false\<close> or of \<open>a || d\<close> with a default \<open>d\<close>, none of which is
  \<open>undefined\<close>.
\<close>

record SpeedConfigR =
  speed_enabled :: bool
  speed_options :: "real list"
  speed_defaultSpeed :: real

record SkipConfig =
  sk_enabled :: "bool option"
  sk_seconds :: "real option"

record SkipConfigR =
  skip_enabled :: bool
  skip_seconds :: real

text \<open>
  The keyboard and the analytics normalizer spread the object, so each of its fields is
  a property.
\<close>

record KeyboardConfig =
  kb_enabled :: "bool option property"
  kb_playPause :: "string list option property"
  kb_skipBack :: "string list option property"
  kb_skipForward :: "string list option property"
  kb_speedUp :: "string list option property"
  kb_speedDown :: "string list option property"
  kb_mute :: "string list option property"
  kb_jumpStart :: "string list option property"
  kb_jumpEnd :: "string list option property"
  kb_showHints :: "bool option property"

text \<open>
  What \<open>normalizeKeyboardConfig\<close> returns. Its declared type is
  \<open>Required<KeyboardConfig>\<close>; at run time a field holds \<open>undefined\<close> where the
  spread copied a key that holds \<open>undefined\<close>.
\<close>

record KeyboardConfigR =
  key_enabled :: "bool option"
  key_playPause :: "string list option"
  key_skipBack :: "string list option"
  key_skipForward :: "string list option"
  key_speedUp :: "string list option"
  key_speedDown :: "string list option"
  key_mute :: "string list option"
  key_jumpStart :: "string list option"
  key_jumpEnd :: "string list option"
  key_showHints :: "bool option"

text \<open>
  An \<open>AnalyticsTracker\<close> is a function \<open>(eventName, eventData) => void\<close>; the model
  names the sink it writes to: a caller's own function, or one of the three platforms
  \<open>detectTracker\<close> looks for.
\<close>

datatype tracker = Custom nat | Plausible | SimpleAnalytics | Gtag

record AnalyticsConfig =
  an_enabled :: "bool option property"
  an_tracker :: "tracker option property"
  an_trackView :: "bool option property"
  an_trackPlay :: "bool option property"
  an_trackPause :: "bool option property"
  an_trackComplete :: "bool option property"
  an_trackSpeedChange :: "bool option property"
  an_trackSkip :: "bool option property"

text \<open>
  What \<open>normalizeAnalyticsConfig\<close> returns, declared \<open>Required<AnalyticsConfig>\<close>.
  \<open>enabled\<close> is always a boolean: every branch assigns it one. The tracker may be
  \<open>undefined\<close>, since the default record holds \<open>undefined as unknown as
  AnalyticsTracker\<close>; a track flag holds \<open>undefined\<close> where the spread copied a key
  that holds \<open>undefined\<close>.
\<close>

record AnalyticsConfigR =
  ana_enabled :: bool
  ana_tracker :: "tracker option"
  ana_trackView :: "bool option"
  ana_trackPlay :: "bool option"
  ana_trackPause :: "bool option"
  ana_trackComplete :: "bool option"
  ana_trackSpeedChange :: "bool option"
  ana_trackSkip :: "bool option"

section \<open>Configuration normalizers (controls.ts, keyboard.ts, analytics.ts)\<close>

definition DEFAULT_SPEED_OPTIONS :: "real list" where
  "DEFAULT_SPEED_OPTIONS = [0.5, 0.75, 1, 1.25, 1.5, 1.75, 2]"

definition DEFAULT_SKIP_SECONDS :: real where
  "DEFAULT_SKIP_SECONDS = 15"

fun normalizeSpeedConfig :: "SpeedConfig feature \<Rightarrow> SpeedConfigR" where
  "normalizeSpeedConfig (Bool False) =
     \<lparr>speed_enabled = False, speed_options = DEFAULT_SPEED_OPTIONS, speed_defaultSpeed = 1\<rparr>"
| "normalizeSpeedConfig (Bool True) =
     \<lparr>speed_enabled = True, speed_options = DEFAULT_SPEED_OPTIONS, speed_defaultSpeed = 1\<rparr>"
| "normalizeSpeedConfig Undefined =
     \<lparr>speed_enabled = True, speed_options = DEFAULT_SPEED_OPTIONS, speed_defaultSpeed = 1\<rparr>"
| "normalizeSpeedConfig (Config config) =
     \<lparr>speed_enabled = not_false (sp_enabled config),
      speed_options = or_array (sp_options config) DEFAULT_SPEED_OPTIONS,
      speed_defaultSpeed = or_num (sp_defaultSpeed config) 1\<rparr>"

fun normalizeSkipConfig :: "SkipConfig feature \<Rightarrow> SkipConfigR" where
  "normalizeSkipConfig (Bool False) =
     \<lparr>skip_enabled = False, skip_seconds = DEFAULT_SKIP_SECONDS\<rparr>"
| "normalizeSkipConfig (Bool True) =
     \<lparr>skip_enabled = True, skip_seconds = DEFAULT_SKIP_SECONDS\<rparr>"
| "normalizeSkipConfig Undefined =
     \<lparr>skip_enabled = True, skip_seconds = DEFAULT_SKIP_SECONDS\<rparr>"
| "normalizeSkipConfig (Config config) =
     \<lparr>skip_enabled = not_false (sk_enabled config),
      skip_seconds = or_num (sk_seconds config) DEFAULT_SKIP_SECONDS\<rparr>"

definition DEFAULT_KEYBOARD_CONFIG :: KeyboardConfigR where
  "DEFAULT_KEYBOARD_CONFIG =
     \<lparr>key_enabled = Some True,
      key_playPause = Some ['' '', ''k'', ''K''],
      key_skipBack = Some [''j'', ''J'', ''ArrowLeft''],
      key_skipForward = Some [''l'', ''L'', ''ArrowRight''],
      key_speedUp = Some [''ArrowUp''],
      key_speedDown = Some [''ArrowDown''],
      key_mute = Some [''m'', ''M''],
      key_jumpStart = Some [''0'', ''Home''],
      key_jumpEnd = Some [''End''],
      key_showHints = Some True\<rparr>"

fun normalizeKeyboardConfig :: "KeyboardConfig feature \<Rightarrow> KeyboardConfigR" where
  "normalizeKeyboardConfig (Bool False) = DEFAULT_KEYBOARD_CONFIG\<lparr>key_enabled := Some False\<rparr>"
| "normalizeKeyboardConfig (Bool True) = DEFAULT_KEYBOARD_CONFIG"
| "normalizeKeyboardConfig Undefined = DEFAULT_KEYBOARD_CONFIG"
| "normalizeKeyboardConfig (Config config) =
     \<lparr>key_enabled = spread (key_enabled DEFAULT_KEYBOARD_CONFIG) (kb_enabled config),
      key_playPause = spread (key_playPause DEFAULT_KEYBOARD_CONFIG) (kb_playPause config),
      key_skipBack = spread (key_skipBack DEFAULT_KEYBOARD_CONFIG) (kb_skipBack config),
      key_skipForward = spread (key_skipForward DEFAULT_KEYBOARD_CONFIG) (kb_skipForward config),
      key_speedUp = spread (key_speedUp DEFAULT_KEYBOARD_CONFIG) (kb_speedUp config),
      key_speedDown = spread (key_speedDown DEFAULT_KEYBOARD_CONFIG) (kb_speedDown config),
      key_mute = spread (key_mute DEFAULT_KEYBOARD_CONFIG) (kb_mute config),
      key_jumpStart = spread (key_jumpStart DEFAULT_KEYBOARD_CONFIG) (kb_jumpStart config),
      key_jumpEnd = spread (key_jumpEnd DEFAULT_KEYBOARD_CONFIG) (kb_jumpEnd config),
      key_showHints = spread (key_showHints DEFAULT_KEYBOARD_CONFIG) (kb_showHints config)\<rparr>"

definition DEFAULT_ANALYTICS_CONFIG :: AnalyticsConfigR where
  "DEFAULT_ANALYTICS_CONFIG =
     \<lparr>ana_enabled = True,
      ana_tracker = None,
      ana_trackView = Some True,
      ana_trackPlay = Some True,
      ana_trackPause = Some True,
      ana_trackComplete = Some True,
      ana_trackSpeedChange = Some True,
      ana_trackSkip = Some True\<rparr>"

fun normalizeAnalyticsConfig :: "AnalyticsConfig feature \<Rightarrow> AnalyticsConfigR" where
  "normalizeAnalyticsConfig (Bool False) = DEFAULT_ANALYTICS_CONFIG\<lparr>ana_enabled := False\<rparr>"
| "normalizeAnalyticsConfig (Bool True) = DEFAULT_ANALYTICS_CONFIG"
| "normalizeAnalyticsConfig Undefined = DEFAULT_ANALYTICS_CONFIG"
| "normalizeAnalyticsConfig (Config config) =
     \<lparr>ana_enabled = not_false (read_property (an_enabled config)),
      ana_tracker = spread (ana_tracker DEFAULT_ANALYTICS_CONFIG) (an_tracker config),
      ana_trackView = spread (ana_trackView DEFAULT_ANALYTICS_CONFIG) (an_trackView config),
      ana_trackPlay = spread (ana_trackPlay DEFAULT_ANALYTICS_CONFIG) (an_trackPlay config),
      ana_trackPause = spread (ana_trackPause DEFAULT_ANALYTICS_CONFIG) (an_trackPause config),
      ana_trackComplete = spread (ana_trackComplete DEFAULT_ANALYTICS_CONFIG) (an_trackComplete config),
      ana_trackSpeedChange =
        spread (ana_trackSpeedChange DEFAULT_ANALYTICS_CONFIG) (an_trackSpeedChange config),
      ana_trackSkip = spread (ana_trackSkip DEFAULT_ANALYTICS_CONFIG) (an_trackSkip config)\<rparr>"

section \<open>Player state (types.ts)\<close>

record PlayerState =
  isReady :: bool
  isPlaying :: bool
  isMuted :: bool
  currentSpeed :: real
  previousVolume :: real
  currentTime :: real
  duration :: real
  hasTrackedView :: bool
  hasTrackedPlay :: bool
  hasTrackedComplete :: bool

definition createInitialState :: PlayerState where
  "createInitialState =
     \<lparr>isReady = False, isPlaying = False, isMuted = False, currentSpeed = 1,
      previousVolume = 1, currentTime = 0, duration = 0, hasTrackedView = False,
      hasTrackedPlay = False, hasTrackedComplete = False\<rparr>"

section \<open>The AudioEngine\<close>

text \<open>
  The engine is WaveSurfer, an external library. It is modelled as the transport the
  player drives: a position, a duration, a volume, a playback rate, a playing flag, and
  the log of the calls it received. \<open>seekTo\<close> takes a progress and moves the position
  to that share of the duration; a setter stores its argument; a getter reads it back.
\<close>

datatype ws_call =
  WsPlay | WsPause | WsPlayPause | WsSeekTo real | WsSetPlaybackRate real
  | WsSetVolume real | WsDestroy

record engine =
  ws_currentTime :: real
  ws_duration :: real
  ws_volume :: real
  ws_playbackRate :: real
  ws_playing :: bool
  ws_calls :: "ws_call list"

definition ws_log :: "ws_call \<Rightarrow> engine \<Rightarrow> engine" where
  "ws_log c e = e\<lparr>ws_calls := ws_calls e @ [c]\<rparr>"

definition ws_play :: "engine \<Rightarrow> engine" where
  "ws_play e = ws_log WsPlay (e\<lparr>ws_playing := True\<rparr>)"

definition ws_pause :: "engine \<Rightarrow> engine" where
  "ws_pause e = ws_log WsPause (e\<lparr>ws_playing := False\<rparr>)"

definition ws_playPause :: "engine \<Rightarrow> engine" where
  "ws_playPause e = ws_log WsPlayPause (e\<lparr>ws_playing := \<not> ws_playing e\<rparr>)"

definition ws_seekTo :: "real \<Rightarrow> engine \<Rightarrow> engine" where
  "ws_seekTo progress e =
     ws_log (WsSeekTo progress) (e\<lparr>ws_currentTime := progress * ws_duration e\<rparr>)"

definition ws_setPlaybackRate :: "real \<Rightarrow> engine \<Rightarrow> engine" where
  "ws_setPlaybackRate rate e = ws_log (WsSetPlaybackRate rate) (e\<lparr>ws_playbackRate := rate\<rparr>)"

definition ws_setVolume :: "real \<Rightarrow> engine \<Rightarrow> engine" where
  "ws_setVolume v e = ws_log (WsSetVolume v) (e\<lparr>ws_volume := v\<rparr>)"

definition ws_destroy :: "engine \<Rightarrow> engine" where
  "ws_destroy e = ws_log WsDestroy (e\<lparr>ws_playing := False\<rparr>)"

text \<open>
  \<open>WaveSurfer.create\<close>: a fresh engine; with peaks data its duration is pre-sized to
  \<open>length / sample_rate\<close>.
\<close>

definition WaveSurfer_create :: "real option \<Rightarrow> engine" where
  "WaveSurfer_create d =
     \<lparr>ws_currentTime = 0, ws_duration = (case d of None \<Rightarrow> 0 | Some x \<Rightarrow> x),
      ws_volume = 1, ws_playbackRate = 1, ws_playing = False, ws_calls = []\<rparr>"

datatype ws_event = Ready | Play | Pause | Finish | Seeking | Audioprocess | Error

section \<open>The page\<close>

text \<open>
  The document is the list of its elements in document order; \<open>node\<close> is the identity
  of an element. The page also holds the module variable \<open>announcerElement\<close> of
  accessibility.ts, the callbacks scheduled by \<open>requestAnimationFrame\<close> and
  \<open>setTimeout\<close>, and what the analytics plugin reads from and writes to \<open>window\<close>.
\<close>

record element =
  node :: nat
  el_id :: string
  tagName :: string
  classList :: "string list"
  isContentEditable :: bool
  textContent :: string

datatype jsv = JStr string | JNum real

record page =
  body :: "element list"
  activeElement :: "element option"
  announcerElement :: "nat option"
  timers :: "(nat \<times> string) list"
  has_plausible :: bool
  has_sa_event :: bool
  has_gtag :: bool
  hostname :: string
  pathname :: string
  document_title :: string
  tracked :: "(tracker \<times> string \<times> (string \<times> jsv) list) list"
  console_debug :: "(string \<times> (string \<times> jsv) list) list"

definition ANNOUNCER_ID :: string where
  "ANNOUNCER_ID = ''wc-player-announcer''"

definition contains :: "page \<Rightarrow> nat \<Rightarrow> bool" where
  "contains pg n = (n \<in> set (map node (body pg)))"

definition getElementById :: "page \<Rightarrow> string \<Rightarrow> nat option" where
  "getElementById pg i = map_option node (find (\<lambda>e. el_id e = i) (body pg))"

definition querySelectorAll_class :: "page \<Rightarrow> string \<Rightarrow> element list" where
  "querySelectorAll_class pg c = filter (\<lambda>e. c \<in> set (classList e)) (body pg)"

definition fresh_node :: "page \<Rightarrow> nat" where
  "fresh_node pg = Suc (fold max (map node (body pg)) 0)"

definition update_element :: "nat \<Rightarrow> (element \<Rightarrow> element) \<Rightarrow> page \<Rightarrow> page" where
  "update_element n f pg = pg\<lparr>body := map (\<lambda>e. if node e = n then f e else e) (body pg)\<rparr>"

definition remove_element :: "nat \<Rightarrow> page \<Rightarrow> page" where
  "remove_element n pg = pg\<lparr>body := filter (\<lambda>e. node e \<noteq> n) (body pg)\<rparr>"

definition classList_add :: "string \<Rightarrow> element \<Rightarrow> element" where
  "classList_add c e = (if c \<in> set (classList e) then e else e\<lparr>classList := classList e @ [c]\<rparr>)"

definition classList_remove :: "string \<Rightarrow> element \<Rightarrow> element" where
  "classList_remove c e = e\<lparr>classList := filter (\<lambda>x. x \<noteq> c) (classList e)\<rparr>"

subsection \<open>Accessibility announcer (accessibility.ts)\<close>

text \<open>The part of \<open>getAnnouncer\<close> after the cached reference has failed.\<close>

definition lookup_or_create_announcer :: "page \<Rightarrow> nat \<times> page" where
  "lookup_or_create_announcer pg =
     (case getElementById pg ANNOUNCER_ID of
        Some a \<Rightarrow> (a, pg\<lparr>announcerElement := Some a\<rparr>)
      | None \<Rightarrow>
          (let a = fresh_node pg;
               announcer = \<lparr>node = a, el_id = ANNOUNCER_ID, tagName = ''DIV'',
                 classList = [''sr-only''], isContentEditable = False, textContent = []\<rparr>
           in (a, pg\<lparr>body := body pg @ [announcer], announcerElement := Some a\<rparr>)))"

definition getAnnouncer :: "page \<Rightarrow> nat \<times> page" where
  "getAnnouncer pg =
     (case announcerElement pg of
        Some n \<Rightarrow> if contains pg n then (n, pg) else lookup_or_create_announcer pg
      | None \<Rightarrow> lookup_or_create_announcer pg)"

text \<open>
  The text is cleared at once; the message is set by a timer (\<open>requestAnimationFrame\<close>,
  then \<open>setTimeout\<close> of 50 ms), which \<open>run_timer\<close> fires.
\<close>

definition announceToScreenReader :: "string \<Rightarrow> page \<Rightarrow> page" where
  "announceToScreenReader message pg =
     (let (announcer, pg1) = getAnnouncer pg;
          pg2 = update_element announcer (\<lambda>e. e\<lparr>textContent := []\<rparr>) pg1
      in pg2\<lparr>timers := timers pg2 @ [(announcer, message)]\<rparr>)"

definition run_timer :: "page \<Rightarrow> page" where
  "run_timer pg =
     (case timers pg of
        [] \<Rightarrow> pg
      | (n, message) # rest \<Rightarrow>
          update_element n (\<lambda>e. e\<lparr>textContent := message\<rparr>) (pg\<lparr>timers := rest\<rparr>))"

definition cleanupAnnouncer :: "page \<Rightarrow> page" where
  "cleanupAnnouncer pg =
     (case announcerElement pg of
        None \<Rightarrow> pg
      | Some n \<Rightarrow>
          if contains pg n then
            (let otherPlayers = querySelectorAll_class pg ''wc-audio-player''
             in if length otherPlayers = 0
                then (remove_element n pg)\<lparr>announcerElement := None\<rparr>
                else pg)
          else pg)"

section \<open>The player (player.ts)\<close>

datatype cb_name = onReady | onPlay | onPause | onFinish | onSeek | onError

datatype cb_arg = NoArg | NumArg real | ErrorArg string

text \<open>The variables of one \<open>analyticsPlugin(config)\<close> closure.\<close>

record analytics_vars =
  av_hasTrackedView :: bool
  av_hasTrackedPlay :: bool
  av_hasTrackedComplete :: bool
  av_tracker :: "tracker option"

definition analytics_vars0 :: analytics_vars where
  "analytics_vars0 =
     \<lparr>av_hasTrackedView = False, av_hasTrackedPlay = False, av_hasTrackedComplete = False,
      av_tracker = None\<rparr>"

text \<open>
  What the operations of one player read and write: its \<open>PlayerState\<close>, the
  \<open>wavesurfer\<close> variable of \<open>createPlayer\<close> (\<open>None\<close> is \<open>null\<close>), the page, the
  log of the caller's callbacks it invoked, and the variables of the analytics plugins
  registered on it, by plugin instance.
\<close>

record sys =
  state :: PlayerState
  wavesurfer :: "engine option"
  page :: page
  called :: "(cb_name \<times> cb_arg) list"
  analytics_of :: "nat \<Rightarrow> analytics_vars"

text \<open>\<open>wavesurfer?.m(...)\<close> for a method called for its effect, and for a getter.\<close>

definition opt_call :: "(engine \<Rightarrow> engine) \<Rightarrow> sys \<Rightarrow> sys" where
  "opt_call m s =
     (case wavesurfer s of None \<Rightarrow> s | Some ws \<Rightarrow> s\<lparr>wavesurfer := Some (m ws)\<rparr>)"

definition opt_get :: "(engine \<Rightarrow> 'a) \<Rightarrow> sys \<Rightarrow> 'a option" where
  "opt_get g s = map_option g (wavesurfer s)"

definition announce :: "string \<Rightarrow> sys \<Rightarrow> sys" where
  "announce message s = s\<lparr>page := announceToScreenReader message (page s)\<rparr>"

definition play :: "sys \<Rightarrow> sys" where
  "play s = opt_call ws_play s"

definition pause :: "sys \<Rightarrow> sys" where
  "pause s = opt_call ws_pause s"

definition playPause :: "sys \<Rightarrow> sys" where
  "playPause s = opt_call ws_playPause s"

definition seekTo :: "real \<Rightarrow> sys \<Rightarrow> sys" where
  "seekTo progress s = opt_call (ws_seekTo (max 0 (min 1 progress))) s"

text \<open>
  \<open>seekToTime\<close>, \<open>skipForward\<close> and \<open>skipBack\<close> call \<open>this.seekTo\<close>; nothing in
  the repository reassigns \<open>seekTo\<close>, so the call is to the function above.
\<close>

definition seekToTime :: "real \<Rightarrow> sys \<Rightarrow> sys" where
  "seekToTime seconds s =
     (let duration = or_num (opt_get ws_duration s) 0
      in if duration > 0 then seekTo (seconds / duration) s else s)"

definition skipForward :: "SkipConfigR \<Rightarrow> real option \<Rightarrow> sys \<Rightarrow> sys" where
  "skipForward skipConfig seconds s =
     (let skipAmount = nullish seconds (skip_seconds skipConfig);
          current = or_num (opt_get ws_currentTime s) 0;
          duration = or_num (opt_get ws_duration s) 0;
          newTime = min duration (current + skipAmount)
      in if duration > 0 then seekTo (newTime / duration) s else s)"

definition skipBack :: "SkipConfigR \<Rightarrow> real option \<Rightarrow> sys \<Rightarrow> sys" where
  "skipBack skipConfig seconds s =
     (let skipAmount = nullish seconds (skip_seconds skipConfig);
          current = or_num (opt_get ws_currentTime s) 0;
          duration = or_num (opt_get ws_duration s) 0;
          newTime = max 0 (current - skipAmount)
      in if duration > 0 then seekTo (newTime / duration) s else s)"

definition setSpeed :: "real \<Rightarrow> sys \<Rightarrow> sys" where
  "setSpeed speed s =
     opt_call (ws_setPlaybackRate speed) (s\<lparr>state := (state s)\<lparr>currentSpeed := speed\<rparr>\<rparr>)"

definition setVolume :: "real \<Rightarrow> sys \<Rightarrow> sys" where
  "setVolume volume s =
     (let clamped = max 0 (min 1 volume);
          s1 = opt_call (ws_setVolume clamped) s
      in if clamped > 0
         then s1\<lparr>state := (state s1)\<lparr>previousVolume := clamped, isMuted := False\<rparr>\<rparr>
         else s1)"

definition toggleMute :: "sys \<Rightarrow> sys" where
  "toggleMute s =
     (if isMuted (state s) then
        (let s1 = opt_call (ws_setVolume (previousVolume (state s))) s;
             s2 = s1\<lparr>state := (state s1)\<lparr>isMuted := False\<rparr>\<rparr>
         in announce ''Unmuted'' s2)
      else
        (let s1 = s\<lparr>state := (state s)\<lparr>previousVolume := or_num (opt_get ws_volume s) 1\<rparr>\<rparr>;
             s2 = opt_call (ws_setVolume 0) s1;
             s3 = s2\<lparr>state := (state s2)\<lparr>isMuted := True\<rparr>\<rparr>
         in announce ''Muted'' s3))"

definition getCurrentTime :: "sys \<Rightarrow> real" where
  "getCurrentTime s = or_num (opt_get ws_currentTime s) 0"

definition getDuration :: "sys \<Rightarrow> real" where
  "getDuration s = or_num (opt_get ws_duration s) 0"

subsection \<open>Options and the player object\<close>

text \<open>
  The \<open>container\<close> option is an element or a CSS selector. Of the selector language
  the model reads the two forms the README uses, \<open>#id\<close> and \<open>.class\<close>; any other
  selector matches nothing.
\<close>

datatype container_arg = Selector string | Element nat

definition querySelector :: "page \<Rightarrow> string \<Rightarrow> nat option" where
  "querySelector pg sel =
     (case sel of
        [] \<Rightarrow> None
      | c # name \<Rightarrow>
          if c = CHR ''#'' then map_option node (find (\<lambda>e. el_id e = name) (body pg))
          else if c = CHR ''.'' then map_option node (find (\<lambda>e. name \<in> set (classList e)) (body pg))
          else None)"

definition resolveContainer :: "page \<Rightarrow> container_arg \<Rightarrow> nat option" where
  "resolveContainer pg container =
     (case container of Selector sel \<Rightarrow> querySelector pg sel | Element n \<Rightarrow> Some n)"

text \<open>
  \<open>Partial<PlayerFeatures>\<close>, the \<open>features\<close> of the options: \<open>createPlayer\<close>
  spreads it over the defaults, so each of its fields is a property.
\<close>

record PartialPlayerFeatures =
  pf_keyboard :: "KeyboardConfig feature property"
  pf_analytics :: "AnalyticsConfig feature property"
  pf_speed :: "SpeedConfig feature property"
  pf_skip :: "SkipConfig feature property"
  pf_autoCreateUI :: "bool option property"

text \<open>
  The merged \<open>features\<close>, declared \<open>PlayerFeatures\<close>; a field holds \<open>undefined\<close>
  where the spread copied a key that holds \<open>undefined\<close>.
\<close>

record PlayerFeatures =
  f_keyboard :: "KeyboardConfig feature"
  f_analytics :: "AnalyticsConfig feature"
  f_speed :: "SpeedConfig feature"
  f_skip :: "SkipConfig feature"
  f_autoCreateUI :: "bool option"

text \<open>
  \<open>WCAudioPlayerOptions\<close>, without the theme and the colours. Of the metadata the code
  reads the title only. A lifecycle callback is the caller's code; the options list the
  callbacks that are given, and invoking one is logged.
\<close>

record WCAudioPlayerOptions =
  opt_container :: container_arg
  opt_audioUrl :: string
  opt_peaksUrl :: "string option"
  opt_features :: "PartialPlayerFeatures option"
  opt_title :: "string option"
  opt_callbacks :: "cb_name list"

definition invoke :: "WCAudioPlayerOptions \<Rightarrow> cb_name \<Rightarrow> cb_arg \<Rightarrow> sys \<Rightarrow> sys" where
  "invoke opts cb arg s =
     (if cb \<in> set (opt_callbacks opts) then s\<lparr>called := called s @ [(cb, arg)]\<rparr> else s)"

definition DEFAULT_FEATURES :: PlayerFeatures where
  "DEFAULT_FEATURES =
     \<lparr>f_keyboard = Bool True, f_analytics = Bool False, f_speed = Bool True,
      f_skip = Bool True, f_autoCreateUI = Some False\<rparr>"

text \<open>
  \<open>{ ...DEFAULT_FEATURES, ...options.features }\<close>; spreading \<open>undefined\<close> adds no
  key.
\<close>

definition merge_features :: "PartialPlayerFeatures option \<Rightarrow> PlayerFeatures" where
  "merge_features fs =
     (case fs of
        None \<Rightarrow> DEFAULT_FEATURES
      | Some f \<Rightarrow>
          \<lparr>f_keyboard = spread (f_keyboard DEFAULT_FEATURES) (pf_keyboard f),
           f_analytics = spread (f_analytics DEFAULT_FEATURES) (pf_analytics f),
           f_speed = spread (f_speed DEFAULT_FEATURES) (pf_speed f),
           f_skip = spread (f_skip DEFAULT_FEATURES) (pf_skip f),
           f_autoCreateUI = spread (f_autoCreateUI DEFAULT_FEATURES) (pf_autoCreateUI f)\<rparr>)"

text \<open>A listener registered with \<open>ws.on(event, ...)\<close>: it gets the engine and the event's argument.\<close>

type_synonym listener = "engine \<Rightarrow> string \<Rightarrow> sys \<Rightarrow> sys"

text \<open>A function of \<open>cleanupFns\<close>: the one \<open>setupKeyboardShortcuts\<close> returns.\<close>

datatype cleanup = RemoveKeydownListener | NoopCleanup

text \<open>
  The player object and the variables of its \<open>createPlayer\<close> closure. \<open>setSpeed\<close>,
  \<open>skipForward\<close> and \<open>skipBack\<close> are the properties of the object that the repository
  reassigns (the analytics plugin wraps them), so they are fields holding the function
  bound at the moment; the other operations are never reassigned. A registered plugin is
  kept with its name and its \<open>destroy\<close>, the parts \<open>destroy()\<close> uses. \<open>keydown\<close> is the
  document's keydown listener of this player, with the normalized configuration it
  closes over. \<open>pending\<close> says that \<open>initializePlayer\<close> is suspended at
  \<open>await loadPeaks(...)\<close>.
\<close>

record player =
  options :: WCAudioPlayerOptions
  container :: nat
  features :: PlayerFeatures
  speedConfig :: SpeedConfigR
  skipConfig :: SkipConfigR
  m_setSpeed :: "real \<Rightarrow> sys \<Rightarrow> sys"
  m_skipForward :: "real option \<Rightarrow> sys \<Rightarrow> sys"
  m_skipBack :: "real option \<Rightarrow> sys \<Rightarrow> sys"
  listeners :: "(ws_event \<times> listener) list"
  plugins :: "(string \<times> (sys \<Rightarrow> sys) option) list"
  cleanupFns :: "cleanup list"
  keydown :: "KeyboardConfigR option"
  pending :: bool
  sys :: sys

record WCAudioPlayerPlugin =
  plugin_name :: string
  plugin_init :: "player \<Rightarrow> player"
  plugin_destroy :: "(sys \<Rightarrow> sys) option"

definition on_sys :: "(sys \<Rightarrow> sys) \<Rightarrow> player \<Rightarrow> player" where
  "on_sys f p = p\<lparr>sys := f (sys p)\<rparr>"

text \<open>
  \<open>cycleSpeed\<close> calls \<open>this.setSpeed\<close>, the function bound at the moment. With an empty
  options list the index is \<open>NaN\<close> and \<open>setSpeed\<close> gets \<open>undefined\<close>, which is no
  number of the model: the result is \<open>None\<close> then.
\<close>

definition cycleSpeed :: "player \<Rightarrow> player option" where
  "cycleSpeed p =
     (let options = speed_options (speedConfig p);
          currentIndex = indexOf options (currentSpeed (state (sys p)));
          nextIndex = (currentIndex + 1) mod int (length options)
      in if options = [] then None
         else map_option (\<lambda>speed. on_sys (m_setSpeed p speed) p) (at_index options nextIndex))"

definition use :: "WCAudioPlayerPlugin \<Rightarrow> player \<Rightarrow> player" where
  "use plugin p =
     plugin_init plugin (p\<lparr>plugins := plugins p @ [(plugin_name plugin, plugin_destroy plugin)]\<rparr>)"

subsection \<open>Engine events\<close>

definition setupWavesurferEvents :: "WCAudioPlayerOptions \<Rightarrow> (ws_event \<times> listener) list" where
  "setupWavesurferEvents opts =
     [(Ready, \<lambda>ws arg s.
         invoke opts onReady NoArg
           (s\<lparr>state := (state s)\<lparr>isReady := True, duration := ws_duration ws\<rparr>\<rparr>)),
      (Play, \<lambda>ws arg s.
         invoke opts onPlay NoArg (s\<lparr>state := (state s)\<lparr>isPlaying := True\<rparr>\<rparr>)),
      (Pause, \<lambda>ws arg s.
         invoke opts onPause (NumArg (ws_currentTime ws))
           (s\<lparr>state := (state s)\<lparr>isPlaying := False, currentTime := ws_currentTime ws\<rparr>\<rparr>)),
      (Finish, \<lambda>ws arg s.
         invoke opts onFinish NoArg (s\<lparr>state := (state s)\<lparr>isPlaying := False\<rparr>\<rparr>)),
      (Seeking, \<lambda>ws arg s.
         invoke opts onSeek (NumArg (ws_currentTime ws))
           (s\<lparr>state := (state s)\<lparr>currentTime := ws_currentTime ws\<rparr>\<rparr>)),
      (Audioprocess, \<lambda>ws arg s. s\<lparr>state := (state s)\<lparr>currentTime := ws_currentTime ws\<rparr>\<rparr>),
      (Error, \<lambda>ws arg s. invoke opts onError (ErrorArg arg) s)]"

text \<open>
  The engine emits an event: the listeners registered for it run in registration order.
  An engine that is not bound emits nothing.
\<close>

definition emit :: "ws_event \<Rightarrow> string \<Rightarrow> player \<Rightarrow> player" where
  "emit ev arg p =
     (case wavesurfer (sys p) of
        None \<Rightarrow> p
      | Some ws \<Rightarrow>
          on_sys (\<lambda>s. fold (\<lambda>(e, h) s'. if e = ev then h ws arg s' else s') (listeners p) s) p)"

subsection \<open>Keyboard shortcuts (keyboard.ts)\<close>

definition isInputFocused :: "page \<Rightarrow> bool" where
  "isInputFocused pg =
     (case activeElement pg of
        None \<Rightarrow> False
      | Some e \<Rightarrow> tagName e \<in> set [''INPUT'', ''TEXTAREA'', ''SELECT''] \<or> isContentEditable e)"

definition getSpeedOptions :: "player \<Rightarrow> real list" where
  "getSpeedOptions p =
     (case opt_features (options p) of
        None \<Rightarrow> [0.5, 0.75, 1, 1.25, 1.5, 1.75, 2]
      | Some f \<Rightarrow>
          (case pf_speed f of
             Holds (Config c) \<Rightarrow>
               (case sp_options c of
                  Some os \<Rightarrow> os
                | None \<Rightarrow> [0.5, 0.75, 1, 1.25, 1.5, 1.75, 2])
           | _ \<Rightarrow> [0.5, 0.75, 1, 1.25, 1.5, 1.75, 2]))"

definition getSpeedIndex :: "player \<Rightarrow> int" where
  "getSpeedIndex p =
     (let opts = getSpeedOptions p;
          current = currentSpeed (state (sys p));
          index = indexOf opts current
      in if index \<ge> 0 then index else indexOf opts 1)"

text \<open>
  The keydown listener. The second component of the result says whether
  \<open>e.preventDefault()\<close> was called. \<open>normalizedConfig.playPause.includes(key)\<close>
  throws a \<open>TypeError\<close> when the field holds \<open>undefined\<close>; the listener has changed
  nothing by then, since it returns from the first key list that has the key. The two
  array reads are in range by the comparison that guards them.
\<close>

definition handleKeyDown :: "KeyboardConfigR \<Rightarrow> string \<Rightarrow> player \<Rightarrow> exn + player \<times> bool" where
  "handleKeyDown normalizedConfig key p =
     (if isInputFocused (page (sys p)) then Inr (p, False)
      else if wavesurfer (sys p) = None \<or> \<not> isReady (state (sys p)) then Inr (p, False)
      else
        (case key_playPause normalizedConfig of None \<Rightarrow> Inl TypeError | Some playPauseKeys \<Rightarrow>
         if key \<in> set playPauseKeys then Inr (on_sys playPause p, True) else
        (case key_skipBack normalizedConfig of None \<Rightarrow> Inl TypeError | Some skipBackKeys \<Rightarrow>
         if key \<in> set skipBackKeys then Inr (on_sys (m_skipBack p None) p, True) else
        (case key_skipForward normalizedConfig of None \<Rightarrow> Inl TypeError | Some skipForwardKeys \<Rightarrow>
         if key \<in> set skipForwardKeys then Inr (on_sys (m_skipForward p None) p, True) else
        (case key_speedUp normalizedConfig of None \<Rightarrow> Inl TypeError | Some speedUpKeys \<Rightarrow>
         if key \<in> set speedUpKeys then
           (let currentIndex = getSpeedIndex p
            in if currentIndex < int (length (getSpeedOptions p)) - 1
               then Inr (on_sys (m_setSpeed p (getSpeedOptions p ! nat (currentIndex + 1))) p, True)
               else Inr (p, True)) else
        (case key_speedDown normalizedConfig of None \<Rightarrow> Inl TypeError | Some speedDownKeys \<Rightarrow>
         if key \<in> set speedDownKeys then
           (let currentIndex = getSpeedIndex p
            in if currentIndex > 0
               then Inr (on_sys (m_setSpeed p (getSpeedOptions p ! nat (currentIndex - 1))) p, True)
               else Inr (p, True)) else
        (case key_mute normalizedConfig of None \<Rightarrow> Inl TypeError | Some muteKeys \<Rightarrow>
         if key \<in> set muteKeys then Inr (on_sys toggleMute p, True) else
        (case key_jumpStart normalizedConfig of None \<Rightarrow> Inl TypeError | Some jumpStartKeys \<Rightarrow>
         if key \<in> set jumpStartKeys
         then Inr (on_sys (announce ''Jumped to start'') (on_sys (seekTo 0) p), True) else
        (case key_jumpEnd normalizedConfig of None \<Rightarrow> Inl TypeError | Some jumpEndKeys \<Rightarrow>
         if key \<in> set jumpEndKeys
         then Inr (on_sys (announce ''Jumped to end'') (on_sys pause (on_sys (seekTo 0.999) p)), True)
         else Inr (p, False))))))))))"

text \<open>
  \<open>setupKeyboardShortcuts\<close>: with \<open>enabled\<close> falsy (\<open>false\<close> or \<open>undefined\<close>) no
  listener is added.
\<close>

definition setupKeyboardShortcuts :: "KeyboardConfig feature \<Rightarrow> player \<Rightarrow> cleanup \<times> player" where
  "setupKeyboardShortcuts config p =
     (let normalizedConfig = normalizeKeyboardConfig config
      in if \<not> truthy (key_enabled normalizedConfig) then (NoopCleanup, p)
         else (RemoveKeydownListener, p\<lparr>keydown := Some normalizedConfig\<rparr>))"

fun run_cleanup :: "cleanup \<Rightarrow> player \<Rightarrow> player" where
  "run_cleanup RemoveKeydownListener p = p\<lparr>keydown := None\<rparr>"
| "run_cleanup NoopCleanup p = p"

text \<open>
  The document dispatches a keydown event to the player's listener, if it has one. An
  exception of the listener is reported by the browser and ends the listener only: the
  player is as the listener left it, which is unchanged.
\<close>

definition keydown_event :: "string \<Rightarrow> player \<Rightarrow> player \<times> bool" where
  "keydown_event key p =
     (case keydown p of
        None \<Rightarrow> (p, False)
      | Some cfg \<Rightarrow> (case handleKeyDown cfg key p of Inl e \<Rightarrow> (p, False) | Inr r \<Rightarrow> r))"

subsection \<open>Analytics plugin (analytics.ts)\<close>

definition detectTracker :: "page \<Rightarrow> tracker option" where
  "detectTracker pg =
     (if has_plausible pg then Some Plausible
      else if has_sa_event pg then Some SimpleAnalytics
      else if has_gtag pg then Some Gtag
      else None)"

definition devLog :: "string \<Rightarrow> (string \<times> jsv) list \<Rightarrow> page \<Rightarrow> page" where
  "devLog eventName eventData pg =
     (if hostname pg = ''localhost'' \<or> hostname pg = ''127.0.0.1''
      then pg\<lparr>console_debug := console_debug pg @ [(eventName, eventData)]\<rparr>
      else pg)"

text \<open>
  The white space \<open>String.prototype.trim\<close> removes, among the characters of a
  \<open>string\<close> here (the code units below 256): space, tab, line feed, vertical tab, form
  feed, carriage return and the no-break space.
\<close>

definition is_space :: "char \<Rightarrow> bool" where
  "is_space c = (c \<in> set [CHR '' '', CHR 0x09, CHR 0x0A, CHR 0x0B, CHR 0x0C, CHR 0x0D, CHR 0xA0])"

definition trim :: "string \<Rightarrow> string" where
  "trim str = rev (dropWhile is_space (rev (dropWhile is_space str)))"

definition getEpisodeTitle :: "WCAudioPlayerOptions \<Rightarrow> page \<Rightarrow> string" where
  "getEpisodeTitle opts pg =
     (let from_dom =
        (case find (\<lambda>e. ''wc-episode-hero-title'' \<in> set (classList e)
                        \<or> ''wc-player-title'' \<in> set (classList e) \<or> tagName e = ''H1'') (body pg) of
           None \<Rightarrow> document_title pg
         | Some titleEl \<Rightarrow>
             if textContent titleEl \<noteq> [] then trim (textContent titleEl) else document_title pg)
      in case opt_title opts of
           None \<Rightarrow> from_dom
         | Some t \<Rightarrow> if t \<noteq> [] then t else from_dom)"

text \<open>
  \<open>track\<close> of plugin instance \<open>k\<close>: it reads the plugin's \<open>tracker\<close> variable when it
  is called.
\<close>

definition track :: "nat \<Rightarrow> string \<Rightarrow> (string \<times> jsv) list \<Rightarrow> sys \<Rightarrow> sys" where
  "track k eventName eventData s =
     (case av_tracker (analytics_of s k) of
        Some t \<Rightarrow> s\<lparr>page := (page s)\<lparr>tracked := tracked (page s) @ [(t, eventName, eventData)]\<rparr>\<rparr>
      | None \<Rightarrow> s\<lparr>page := devLog eventName eventData (page s)\<rparr>)"

definition set_vars :: "nat \<Rightarrow> (analytics_vars \<Rightarrow> analytics_vars) \<Rightarrow> sys \<Rightarrow> sys" where
  "set_vars k f s = s\<lparr>analytics_of := (analytics_of s)(k := f (analytics_of s k))\<rparr>"

definition analytics_tracker :: "nat \<Rightarrow> AnalyticsConfigR \<Rightarrow> player \<Rightarrow> player" where
  "analytics_tracker k cfg p =
     on_sys (\<lambda>s. set_vars k (\<lambda>v. v\<lparr>av_tracker := or_ref (ana_tracker cfg) (detectTracker (page s))\<rparr>) s) p"

definition analytics_view :: "nat \<Rightarrow> AnalyticsConfigR \<Rightarrow> player \<Rightarrow> player" where
  "analytics_view k cfg p =
     (if truthy (ana_trackView cfg) \<and> \<not> av_hasTrackedView (analytics_of (sys p) k) then
        on_sys (\<lambda>s. track k ''episode_view''
                  [(''title'', JStr (getEpisodeTitle (options p) (page s))),
                   (''url'', JStr (pathname (page s)))]
                  (set_vars k (\<lambda>v. v\<lparr>av_hasTrackedView := True\<rparr>) s)) p
      else p)"

definition analytics_onPlay :: "nat \<Rightarrow> AnalyticsConfigR \<Rightarrow> player \<Rightarrow> player" where
  "analytics_onPlay k cfg p =
     (if truthy (ana_trackPlay cfg) \<and> wavesurfer (sys p) \<noteq> None then
        p\<lparr>listeners := listeners p @
          [(Play, \<lambda>ws arg s.
              if \<not> av_hasTrackedPlay (analytics_of s k) then
                track k ''play'' [(''episode'', JStr (getEpisodeTitle (options p) (page s)))]
                  (set_vars k (\<lambda>v. v\<lparr>av_hasTrackedPlay := True\<rparr>) s)
              else s)]\<rparr>
      else p)"

definition analytics_onPause :: "nat \<Rightarrow> AnalyticsConfigR \<Rightarrow> player \<Rightarrow> player" where
  "analytics_onPause k cfg p =
     (if truthy (ana_trackPause cfg) \<and> wavesurfer (sys p) \<noteq> None then
        p\<lparr>listeners := listeners p @
          [(Pause, \<lambda>ws arg s.
              track k ''pause''
                [(''episode'', JStr (getEpisodeTitle (options p) (page s))),
                 (''position'', JNum (of_int \<lfloor>getCurrentTime s + 1 / 2\<rfloor>))] s)]\<rparr>
      else p)"

definition analytics_onFinish :: "nat \<Rightarrow> AnalyticsConfigR \<Rightarrow> player \<Rightarrow> player" where
  "analytics_onFinish k cfg p =
     (if truthy (ana_trackComplete cfg) \<and> wavesurfer (sys p) \<noteq> None then
        p\<lparr>listeners := listeners p @
          [(Finish, \<lambda>ws arg s.
              if \<not> av_hasTrackedComplete (analytics_of s k) then
                track k ''complete'' [(''episode'', JStr (getEpisodeTitle (options p) (page s)))]
                  (set_vars k (\<lambda>v. v\<lparr>av_hasTrackedComplete := True\<rparr>) s)
              else s)]\<rparr>
      else p)"

text \<open>
  The method wrapping: \<open>originalSetSpeed\<close> is the function bound to \<open>player.setSpeed\<close>
  when \<open>init\<close> runs; the new function calls it, then tracks.
\<close>

definition analytics_wrapSpeed :: "nat \<Rightarrow> AnalyticsConfigR \<Rightarrow> player \<Rightarrow> player" where
  "analytics_wrapSpeed k cfg p =
     (if truthy (ana_trackSpeedChange cfg) then
        (let originalSetSpeed = m_setSpeed p
         in p\<lparr>m_setSpeed := (\<lambda>speed s.
              track k ''speed_change'' [(''speed'', JNum speed)] (originalSetSpeed speed s))\<rparr>)
      else p)"

definition analytics_wrapSkip :: "nat \<Rightarrow> AnalyticsConfigR \<Rightarrow> player \<Rightarrow> player" where
  "analytics_wrapSkip k cfg p =
     (if truthy (ana_trackSkip cfg) then
        (let originalSkipForward = m_skipForward p;
             originalSkipBack = m_skipBack p
         in p\<lparr>m_skipForward := (\<lambda>seconds s.
                track k ''skip_forward'' [(''seconds'', JNum (or_num seconds 15))]
                  (originalSkipForward seconds s)),
              m_skipBack := (\<lambda>seconds s.
                track k ''skip_back'' [(''seconds'', JNum (or_num seconds 15))]
                  (originalSkipBack seconds s))\<rparr>)
      else p)"

text \<open>
  \<open>analyticsPlugin(config)\<close>; \<open>k\<close> names the closure it creates. Its \<open>destroy\<close> sets
  the handler references and \<open>tracker\<close> to \<open>null\<close>; the listeners and the wrapped
  methods stay registered.
\<close>

definition analyticsPlugin :: "nat \<Rightarrow> AnalyticsConfig feature \<Rightarrow> WCAudioPlayerPlugin" where
  "analyticsPlugin k config =
     (let normalizedConfig = normalizeAnalyticsConfig config
      in \<lparr>plugin_name = ''analytics'',
          plugin_init = (\<lambda>p.
            if \<not> ana_enabled normalizedConfig then p
            else analytics_wrapSkip k normalizedConfig
                   (analytics_wrapSpeed k normalizedConfig
                     (analytics_onFinish k normalizedConfig
                       (analytics_onPause k normalizedConfig
                         (analytics_onPlay k normalizedConfig
                           (analytics_view k normalizedConfig
                             (analytics_tracker k normalizedConfig p))))))),
          plugin_destroy = Some (set_vars k (\<lambda>v. v\<lparr>av_tracker := None\<rparr>))\<rparr>)"

subsection \<open>Transcript plugin (transcript.ts)\<close>

text \<open>
  The transcript plugin never reads or writes the player it is given: its \<open>init\<close>
  rewrites the page's content (it wraps the transcript section in a collapsible toggle),
  and its \<open>destroy\<close> removes the toggle's click listener. The two page changes are
  parameters of the model.
\<close>

definition transcriptPlugin :: "(page \<Rightarrow> page) \<Rightarrow> (page \<Rightarrow> page) \<Rightarrow> WCAudioPlayerPlugin" where
  "transcriptPlugin wrapSection removeListener =
     \<lparr>plugin_name = ''transcript'',
      plugin_init = (\<lambda>p. on_sys (\<lambda>s. s\<lparr>page := wrapSection (page s)\<rparr>) p),
      plugin_destroy = Some (\<lambda>s. s\<lparr>page := removeListener (page s)\<rparr>)\<rparr>"

subsection \<open>Construction, initialization and teardown\<close>

record PeaksData =
  sample_rate :: real
  peaks_length :: real
  peaks_data :: "real list"

definition has_peaksUrl :: "WCAudioPlayerOptions \<Rightarrow> bool" where
  "has_peaksUrl opts = (case opt_peaksUrl opts of None \<Rightarrow> False | Some url \<Rightarrow> url \<noteq> [])"

fun truthy_feature :: "'c feature \<Rightarrow> bool" where
  "truthy_feature (Bool b) = b"
| "truthy_feature Undefined = False"
| "truthy_feature (Config c) = True"

text \<open>
  \<open>initializePlayer\<close> from the creation of the engine on; \<open>peaksData\<close> is what
  \<open>loadPeaks\<close> returned (\<open>None\<close> for \<open>null\<close>, and when no peaks URL is given). The
  creation of the waveform element and the binding of the DOM controls are left out:
  they change the page's controls only.
\<close>

definition initializePlayer :: "PeaksData option \<Rightarrow> player \<Rightarrow> player" where
  "initializePlayer peaksData p =
     (let ws =
            (if has_peaksUrl (options p) then
               (case peaksData of
                  Some pd \<Rightarrow> WaveSurfer_create (Some (peaks_length pd / sample_rate pd))
                | None \<Rightarrow> WaveSurfer_create None)
             else WaveSurfer_create None);
          p1 = on_sys (\<lambda>s. s\<lparr>wavesurfer := Some ws\<rparr>) (p\<lparr>pending := False\<rparr>);
          p2 = p1\<lparr>listeners := listeners p1 @ setupWavesurferEvents (options p1)\<rparr>;
          p3 = (if truthy_feature (f_keyboard (features p2)) then
                  (let (cleanup, q) = setupKeyboardShortcuts (f_keyboard (features p2)) p2
                   in q\<lparr>cleanupFns := cleanupFns q @ [cleanup]\<rparr>)
                else p2)
      in on_sys (\<lambda>s. s\<lparr>page := update_element (container p3)
                   (classList_add ''wc-audio-player--initialized'') (page s)\<rparr>) p3)"

text \<open>
  The state, the configuration and the player object as \<open>createPlayer\<close> has built them
  when it calls \<open>initializePlayer()\<close>: the initial state with the configured default
  speed, no engine, no plugin, no cleanup function.
\<close>

definition player_object :: "WCAudioPlayerOptions \<Rightarrow> nat \<Rightarrow> page \<Rightarrow> player" where
  "player_object opts c pg =
     (let fs = merge_features (opt_features opts);
          speedCfg = normalizeSpeedConfig (f_speed fs);
          skipCfg = normalizeSkipConfig (f_skip fs)
      in \<lparr>options = opts, container = c, features = fs, speedConfig = speedCfg,
          skipConfig = skipCfg, m_setSpeed = setSpeed,
          m_skipForward = skipForward skipCfg, m_skipBack = skipBack skipCfg,
          listeners = [], plugins = [], cleanupFns = [], keydown = None,
          pending = True,
          sys = \<lparr>state = createInitialState\<lparr>currentSpeed := speed_defaultSpeed speedCfg\<rparr>,
                 wavesurfer = None, page = pg, called = [],
                 analytics_of = (\<lambda>k. analytics_vars0)\<rparr>\<rparr>)"

text \<open>
  \<open>createPlayer\<close> up to its \<open>return\<close>: without a peaks URL \<open>initializePlayer\<close> has
  run to its end by then; with one it is suspended at the fetch, and the player is
  returned with no engine bound.
\<close>

definition createPlayer :: "WCAudioPlayerOptions \<Rightarrow> page \<Rightarrow> exn + player" where
  "createPlayer opts pg =
     (case resolveContainer pg (opt_container opts) of
        None \<Rightarrow> Inl (JsError ''WCAudioPlayer: Container element not found'')
      | Some c \<Rightarrow>
          (let p = player_object opts c pg
           in Inr (if has_peaksUrl opts then p else initializePlayer None p)))"

definition destroy :: "player \<Rightarrow> player" where
  "destroy p =
     (let p1 = fold run_cleanup (cleanupFns p) p;
          p2 = fold (\<lambda>(name, d) q. case d of None \<Rightarrow> q | Some f \<Rightarrow> on_sys f q) (plugins p1) p1;
          p3 = on_sys (\<lambda>s. (opt_call ws_destroy s)\<lparr>wavesurfer := None\<rparr>) p2;
          p4 = on_sys (\<lambda>s. s\<lparr>page := cleanupAnnouncer (page s)\<rparr>) p3;
          p5 = on_sys (\<lambda>s. s\<lparr>page := update_element (container p4)
                   (classList_remove ''wc-audio-player--initialized'') (page s)\<rparr>) p4
      in on_sys (invoke (options p5) onError (ErrorArg ''Player destroyed'')) p5)"

text \<open>Players of one page share it: a player goes on from the page another one left.\<close>

definition on_page_of :: "player \<Rightarrow> player \<Rightarrow> player" where
  "on_page_of other p = on_sys (\<lambda>s. s\<lparr>page := page (sys other)\<rparr>) p"

subsection \<open>What can happen to a player\<close>

datatype action =
  DoPlay | DoPause | DoPlayPause | DoSeekTo real | DoSeekToTime real
  | DoSkipForward "real option" | DoSkipBack "real option" | DoSetSpeed real
  | DoCycleSpeed | DoSetVolume real | DoToggleMute | DoAnnounce string
  | DoUseAnalytics nat "AnalyticsConfig feature"
  | DoUseTranscript "page \<Rightarrow> page" "page \<Rightarrow> page" | DoDestroy
  | PeaksLoaded "PeaksData option" | Emit ws_event string | KeyDown string | Timer
  | EngineChange "engine \<Rightarrow> engine" | PageChange "page \<Rightarrow> page"

text \<open>
  One step of a player's life: a call of its public interface (\<open>use\<close> with either
  plugin of the repository), the end of the peaks fetch, an event of the engine, a key, a
  timer, or a change made by the engine or the page on their own. A click on a bound
  control is a sequence of such steps: the click listeners of controls.ts call
  \<open>playPause\<close>, \<open>setSpeed\<close>, \<open>skipBack\<close> and \<open>skipForward\<close>, update the
  control and announce. \<open>None\<close> only where \<open>cycleSpeed\<close> leaves the model.
\<close>

fun step :: "action \<Rightarrow> player \<Rightarrow> player option" where
  "step DoPlay p = Some (on_sys play p)"
| "step DoPause p = Some (on_sys pause p)"
| "step DoPlayPause p = Some (on_sys playPause p)"
| "step (DoSeekTo x) p = Some (on_sys (seekTo x) p)"
| "step (DoSeekToTime x) p = Some (on_sys (seekToTime x) p)"
| "step (DoSkipForward x) p = Some (on_sys (m_skipForward p x) p)"
| "step (DoSkipBack x) p = Some (on_sys (m_skipBack p x) p)"
| "step (DoSetSpeed x) p = Some (on_sys (m_setSpeed p x) p)"
| "step DoCycleSpeed p = cycleSpeed p"
| "step (DoSetVolume x) p = Some (on_sys (setVolume x) p)"
| "step DoToggleMute p = Some (on_sys toggleMute p)"
| "step (DoAnnounce m) p = Some (on_sys (announce m) p)"
| "step (DoUseAnalytics k config) p = Some (use (analyticsPlugin k config) p)"
| "step (DoUseTranscript f g) p = Some (use (transcriptPlugin f g) p)"
| "step DoDestroy p = Some (destroy p)"
| "step (PeaksLoaded pd) p = Some (if pending p then initializePlayer pd p else p)"
| "step (Emit ev arg) p = Some (emit ev arg p)"
| "step (KeyDown key) p = Some (fst (keydown_event key p))"
| "step Timer p = Some (on_sys (\<lambda>s. s\<lparr>page := run_timer (page s)\<rparr>) p)"
| "step (EngineChange f) p = Some (on_sys (\<lambda>s. s\<lparr>wavesurfer := map_option f (wavesurfer s)\<rparr>) p)"
| "step (PageChange f) p = Some (on_sys (\<lambda>s. s\<lparr>page := f (page s)\<rparr>) p)"

fun run :: "action list \<Rightarrow> player \<Rightarrow> player option" where
  "run [] p = Some p"
| "run (a # as) p = (case step a p of None \<Rightarrow> None | Some q \<Rightarrow> run as q)"

section \<open>The rules the specification states, for comparison\<close>

text \<open>
  The three-way rule of the specification's section 4.1, written from its words:
  \<open>false\<close> gives the defaults with \<open>enabled: false\<close>; \<open>true\<close> or absent gives the
  defaults with \<open>enabled: true\<close>; an object gives the defaults overridden by the
  object's fields, with \<open>enabled\<close> resolved to \<open>object.enabled !== false\<close>.
\<close>

definition spec_three_way ::
  "'r \<Rightarrow> (bool \<Rightarrow> 'r \<Rightarrow> 'r) \<Rightarrow> ('c \<Rightarrow> 'r \<Rightarrow> 'r) \<Rightarrow> ('c \<Rightarrow> bool option) \<Rightarrow> 'c feature \<Rightarrow> 'r" where
  "spec_three_way defaults set_enabled override enabled_of c =
     (case c of
        Bool False \<Rightarrow> set_enabled False defaults
      | Bool True \<Rightarrow> set_enabled True defaults
      | Undefined \<Rightarrow> set_enabled True defaults
      | Config obj \<Rightarrow> set_enabled (enabled_of obj \<noteq> Some False) (override obj defaults))"

text \<open>
  A field of the result by that rule: the object's value where the object has one, the
  default otherwise; \<open>overriding\<close> for a field of a record with no optional field,
  \<open>overriding_opt\<close> for a field that the record may leave \<open>undefined\<close>.
\<close>

definition overriding :: "'a \<Rightarrow> 'a option \<Rightarrow> 'a" where
  "overriding d v = (case v of None \<Rightarrow> d | Some x \<Rightarrow> x)"

definition overriding_opt :: "'a option \<Rightarrow> 'a option \<Rightarrow> 'a option" where
  "overriding_opt d v = (case v of None \<Rightarrow> d | Some x \<Rightarrow> Some x)"

definition spec_speed_defaults :: SpeedConfigR where
  "spec_speed_defaults =
     \<lparr>speed_enabled = True, speed_options = DEFAULT_SPEED_OPTIONS, speed_defaultSpeed = 1\<rparr>"

definition spec_speed_override :: "SpeedConfig \<Rightarrow> SpeedConfigR \<Rightarrow> SpeedConfigR" where
  "spec_speed_override obj r =
     r\<lparr>speed_options := overriding (speed_options r) (sp_options obj),
       speed_defaultSpeed := overriding (speed_defaultSpeed r) (sp_defaultSpeed obj)\<rparr>"

definition spec_skip_defaults :: SkipConfigR where
  "spec_skip_defaults = \<lparr>skip_enabled = True, skip_seconds = DEFAULT_SKIP_SECONDS\<rparr>"

definition spec_skip_override :: "SkipConfig \<Rightarrow> SkipConfigR \<Rightarrow> SkipConfigR" where
  "spec_skip_override obj r = r\<lparr>skip_seconds := overriding (skip_seconds r) (sk_seconds obj)\<rparr>"

definition spec_keyboard_override :: "KeyboardConfig \<Rightarrow> KeyboardConfigR \<Rightarrow> KeyboardConfigR" where
  "spec_keyboard_override obj r =
     r\<lparr>key_playPause := overriding_opt (key_playPause r) (read_property (kb_playPause obj)),
       key_skipBack := overriding_opt (key_skipBack r) (read_property (kb_skipBack obj)),
       key_skipForward := overriding_opt (key_skipForward r) (read_property (kb_skipForward obj)),
       key_speedUp := overriding_opt (key_speedUp r) (read_property (kb_speedUp obj)),
       key_speedDown := overriding_opt (key_speedDown r) (read_property (kb_speedDown obj)),
       key_mute := overriding_opt (key_mute r) (read_property (kb_mute obj)),
       key_jumpStart := overriding_opt (key_jumpStart r) (read_property (kb_jumpStart obj)),
       key_jumpEnd := overriding_opt (key_jumpEnd r) (read_property (kb_jumpEnd obj)),
       key_showHints := overriding_opt (key_showHints r) (read_property (kb_showHints obj))\<rparr>"

definition spec_analytics_override :: "AnalyticsConfig \<Rightarrow> AnalyticsConfigR \<Rightarrow> AnalyticsConfigR" where
  "spec_analytics_override obj r =
     r\<lparr>ana_tracker := overriding_opt (ana_tracker r) (read_property (an_tracker obj)),
       ana_trackView := overriding_opt (ana_trackView r) (read_property (an_trackView obj)),
       ana_trackPlay := overriding_opt (ana_trackPlay r) (read_property (an_trackPlay obj)),
       ana_trackPause := overriding_opt (ana_trackPause r) (read_property (an_trackPause obj)),
       ana_trackComplete :=
         overriding_opt (ana_trackComplete r) (read_property (an_trackComplete obj)),
       ana_trackSpeedChange :=
         overriding_opt (ana_trackSpeedChange r) (read_property (an_trackSpeedChange obj)),
       ana_trackSkip := overriding_opt (ana_trackSkip r) (read_property (an_trackSkip obj))\<rparr>"

text \<open>
  A property of the object that is absent or holds a value: it does not hold
  \<open>undefined\<close>. \<open>keyboard_defined\<close> and \<open>analytics_defined\<close> say so of the keys
  that the result takes from the spread as they are.
\<close>

fun defined :: "'a option property \<Rightarrow> bool" where
  "defined Absent = True"
| "defined (Holds v) = (v \<noteq> None)"

definition keyboard_defined :: "KeyboardConfig \<Rightarrow> bool" where
  "keyboard_defined obj =
     (defined (kb_enabled obj) \<and> defined (kb_playPause obj) \<and> defined (kb_skipBack obj)
      \<and> defined (kb_skipForward obj) \<and> defined (kb_speedUp obj) \<and> defined (kb_speedDown obj)
      \<and> defined (kb_mute obj) \<and> defined (kb_jumpStart obj) \<and> defined (kb_jumpEnd obj)
      \<and> defined (kb_showHints obj))"

definition analytics_defined :: "AnalyticsConfig \<Rightarrow> bool" where
  "analytics_defined obj =
     (defined (an_trackView obj) \<and> defined (an_trackPlay obj) \<and> defined (an_trackPause obj)
      \<and> defined (an_trackComplete obj) \<and> defined (an_trackSpeedChange obj)
      \<and> defined (an_trackSkip obj))"

fun feature_object :: "('c \<Rightarrow> bool) \<Rightarrow> 'c feature \<Rightarrow> bool" where
  "feature_object P (Config obj) = P obj"
| "feature_object P c = True"

text \<open>Every field of the result is populated; for the analytics result, every field but the tracker.\<close>

definition keyboard_populated :: "KeyboardConfigR \<Rightarrow> bool" where
  "keyboard_populated r =
     (key_enabled r \<noteq> None \<and> key_playPause r \<noteq> None \<and> key_skipBack r \<noteq> None
      \<and> key_skipForward r \<noteq> None \<and> key_speedUp r \<noteq> None \<and> key_speedDown r \<noteq> None
      \<and> key_mute r \<noteq> None \<and> key_jumpStart r \<noteq> None \<and> key_jumpEnd r \<noteq> None
      \<and> key_showHints r \<noteq> None)"

definition analytics_populated :: "AnalyticsConfigR \<Rightarrow> bool" where
  "analytics_populated r =
     (ana_trackView r \<noteq> None \<and> ana_trackPlay r \<noteq> None \<and> ana_trackPause r \<noteq> None
      \<and> ana_trackComplete r \<noteq> None \<and> ana_trackSpeedChange r \<noteq> None
      \<and> ana_trackSkip r \<noteq> None)"

text \<open>What \<open>||\<close> does to a numeric field of a configuration object: a 0 counts as absent.\<close>

definition drop_zero :: "real option \<Rightarrow> real option" where
  "drop_zero a = (case a of None \<Rightarrow> None | Some x \<Rightarrow> if x = 0 then None else Some x)"

text \<open>
  The index resolution the specification states for \<open>cycleSpeed\<close>: the index of the
  current speed, or of \<open>1\<close> when it is not an option, or \<open>0\<close> when \<open>1\<close> is none
  either; and the speed the specification's \<open>cycleSpeed\<close> moves to.
\<close>

definition spec_currentIndex :: "real list \<Rightarrow> real \<Rightarrow> int" where
  "spec_currentIndex opts c =
     (if c \<in> set opts then indexOf opts c else if 1 \<in> set opts then indexOf opts 1 else 0)"

definition spec_cycleSpeed :: "real list \<Rightarrow> real \<Rightarrow> real" where
  "spec_cycleSpeed opts c = opts ! nat ((spec_currentIndex opts c + 1) mod int (length opts))"

section \<open>Example inputs\<close>

text \<open>A page with two player containers, marked up as the README shows.\<close>

definition example_page :: page where
  "example_page =
     \<lparr>body =
        [\<lparr>node = 1, el_id = ''player'', tagName = ''DIV'', classList = [''wc-audio-player''],
          isContentEditable = False, textContent = []\<rparr>,
         \<lparr>node = 2, el_id = ''player-2'', tagName = ''DIV'', classList = [''wc-audio-player''],
          isContentEditable = False, textContent = []\<rparr>],
      activeElement = None, announcerElement = None, timers = [],
      has_plausible = False, has_sa_event = False, has_gtag = False,
      hostname = ''example.org'', pathname = ''/episode-1'', document_title = ''Episode 1'',
      tracked = [], console_debug = []\<rparr>"

definition example_options :: WCAudioPlayerOptions where
  "example_options =
     \<lparr>opt_container = Selector ''#player'', opt_audioUrl = ''episode.mp3'',
      opt_peaksUrl = None, opt_features = None, opt_title = None, opt_callbacks = []\<rparr>"

text \<open>The player \<open>createPlayer\<close> returns for them: no peaks URL, so its engine is bound.\<close>

definition example_player :: player where
  "example_player = projr (createPlayer example_options example_page)"

text \<open>With a peaks URL the player is returned while the fetch is pending.\<close>

definition example_pending :: player where
  "example_pending =
     projr (createPlayer (example_options\<lparr>opt_peaksUrl := Some ''peaks.json''\<rparr>) example_page)"

definition example_engine :: "real \<Rightarrow> real \<Rightarrow> real \<Rightarrow> engine" where
  "example_engine t d v =
     \<lparr>ws_currentTime = t, ws_duration = d, ws_volume = v, ws_playbackRate = 1,
      ws_playing = False, ws_calls = []\<rparr>"

text \<open>A player state with the given engine bound, on the example page.\<close>

definition example_sys :: "engine option \<Rightarrow> sys" where
  "example_sys ws =
     \<lparr>state = createInitialState, wavesurfer = ws, page = example_page, called = [],
      analytics_of = (\<lambda>k. analytics_vars0)\<rparr>"

text \<open>A page whose two player containers do not carry the class \<open>wc-audio-player\<close>.\<close>

definition example_plain_page :: page where
  "example_plain_page =
     example_page\<lparr>body :=
        [\<lparr>node = 1, el_id = ''player'', tagName = ''DIV'', classList = [],
          isContentEditable = False, textContent = []\<rparr>,
         \<lparr>node = 2, el_id = ''player-2'', tagName = ''DIV'', classList = [],
          isContentEditable = False, textContent = []\<rparr>]\<rparr>"

text \<open>
  Two players on one page: the first is created on the page, the second on the page the
  first left; the first mutes (which creates the announcer); the first is destroyed;
  then the second is.
\<close>

definition first_player :: "page \<Rightarrow> player" where
  "first_player pg = projr (createPlayer example_options pg)"

definition second_player :: "page \<Rightarrow> player" where
  "second_player pg =
     projr (createPlayer (example_options\<lparr>opt_container := Selector ''#player-2''\<rparr>)
              (page (sys (first_player pg))))"

definition first_muted :: "page \<Rightarrow> player" where
  "first_muted pg = on_sys toggleMute (on_page_of (second_player pg) (first_player pg))"

definition first_destroyed :: "page \<Rightarrow> player" where
  "first_destroyed pg = destroy (first_muted pg)"

definition both_destroyed :: "page \<Rightarrow> player" where
  "both_destroyed pg = destroy (on_page_of (first_destroyed pg) (second_player pg))"

text \<open>
  The pages of that scenario: the example page (its containers with the classes \<open>cs\<close>)
  once both players are initialized, and the same page once the announcer is created and
  the announcement of \<open>Muted\<close> is scheduled.
\<close>

definition initialized_page :: "string list \<Rightarrow> page" where
  "initialized_page cs =
     example_page\<lparr>body :=
        [\<lparr>node = 1, el_id = ''player'', tagName = ''DIV'',
          classList = cs @ [''wc-audio-player--initialized''],
          isContentEditable = False, textContent = []\<rparr>,
         \<lparr>node = 2, el_id = ''player-2'', tagName = ''DIV'',
          classList = cs @ [''wc-audio-player--initialized''],
          isContentEditable = False, textContent = []\<rparr>]\<rparr>"

definition muted_page :: "string list \<Rightarrow> page" where
  "muted_page cs =
     (initialized_page cs)\<lparr>body := body (initialized_page cs) @
        [\<lparr>node = 3, el_id = ANNOUNCER_ID, tagName = ''DIV'', classList = [''sr-only''],
          isContentEditable = False, textContent = []\<rparr>],
        announcerElement := Some 3, timers := [(3, ''Muted'')]\<rparr>"

text \<open>
  A plugin of the shape of the analytics plugin's method wrapping: its \<open>init\<close> reads
  the function bound to \<open>player.setSpeed\<close> and binds a wrapper of it.
\<close>

definition wrapping_plugin ::
  "string \<Rightarrow> ((real \<Rightarrow> sys \<Rightarrow> sys) \<Rightarrow> real \<Rightarrow> sys \<Rightarrow> sys) \<Rightarrow> WCAudioPlayerPlugin" where
  "wrapping_plugin name wrapper =
     \<lparr>plugin_name = name,
      plugin_init = (\<lambda>player. let originalSetSpeed = m_setSpeed player
                               in player\<lparr>m_setSpeed := wrapper originalSetSpeed\<rparr>),
      plugin_destroy = None\<rparr>"

text \<open>A keyboard configuration object: \<open>{mute: ['x'], showHints: false}\<close>.\<close>

definition example_keys :: KeyboardConfig where
  "example_keys =
     \<lparr>kb_enabled = Absent, kb_playPause = Absent, kb_skipBack = Absent, kb_skipForward = Absent,
      kb_speedUp = Absent, kb_speedDown = Absent, kb_mute = Holds (Some [''x'']),
      kb_jumpStart = Absent, kb_jumpEnd = Absent, kb_showHints = Holds (Some False)\<rparr>"

text \<open>An analytics configuration with a tracker of the caller's and no view tracking.\<close>

definition example_analytics :: "nat \<Rightarrow> AnalyticsConfig feature" where
  "example_analytics t =
     Config \<lparr>an_enabled = Absent, an_tracker = Holds (Some (Custom t)),
       an_trackView = Holds (Some False), an_trackPlay = Absent, an_trackPause = Absent,
       an_trackComplete = Absent, an_trackSpeedChange = Absent, an_trackSkip = Absent\<rparr>"

text \<open>The example player with two analytics plugins registered, one after the other.\<close>

definition example_tracked :: player where
  "example_tracked =
     use (analyticsPlugin 2 (example_analytics 2))
       (use (analyticsPlugin 1 (example_analytics 1)) example_player)"

section \<open>Invariants\<close>

text \<open>
  A function on the player's state is quiet when it leaves \<open>isReady\<close> as it is and
  binds no engine. A listener of the \<open>ready\<close> event readies: it sets \<open>isReady\<close>. A
  player is well-formed when its three bound methods, its listeners of the other events
  and the \<open>destroy\<close> functions of its plugins are quiet, its \<open>ready\<close> listeners ready,
  and a bound engine has a \<open>ready\<close> listener.
\<close>

definition quiet :: "(sys \<Rightarrow> sys) \<Rightarrow> bool" where
  "quiet f \<longleftrightarrow>
     (\<forall>s. isReady (state (f s)) = isReady (state s)
          \<and> (wavesurfer s = None \<longrightarrow> wavesurfer (f s) = None))"

definition readies :: "listener \<Rightarrow> bool" where
  "readies h \<longleftrightarrow>
     (\<forall>ws arg s. isReady (state (h ws arg s))
          \<and> (wavesurfer s = None \<longrightarrow> wavesurfer (h ws arg s) = None))"

definition wf :: "player \<Rightarrow> bool" where
  "wf p \<longleftrightarrow>
     (\<forall>x. quiet (m_setSpeed p x)) \<and> (\<forall>x. quiet (m_skipForward p x))
     \<and> (\<forall>x. quiet (m_skipBack p x))
     \<and> (\<forall>(e, h) \<in> set (listeners p).
          if e = Ready then readies h else (\<forall>ws arg. quiet (h ws arg)))
     \<and> (\<forall>(n, d) \<in> set (plugins p). case d of None \<Rightarrow> True | Some f \<Rightarrow> quiet f)
     \<and> (wavesurfer (sys p) \<noteq> None \<longrightarrow> (\<exists>h. (Ready, h) \<in> set (listeners p)))"

section \<open>Basic facts\<close>

lemma or_num_drop_zero: "or_num a d = overriding d (drop_zero a)"
  by (simp add: or_num_def overriding_def drop_zero_def split: option.splits)

lemma indexOf_absent: "x \<notin> set xs \<Longrightarrow> indexOf xs x = -1"
  by (induction xs) (auto simp: Let_def)

lemma indexOf_ge: "- 1 \<le> indexOf xs x"
  by (induction xs) (auto simp: Let_def)

lemma indexOf_lt: "indexOf xs x < int (length xs)"
  by (induction xs) (auto simp: Let_def)

lemma indexOf_first:
  "i < length xs \<Longrightarrow> xs ! i = x \<Longrightarrow> (\<forall>j<i. xs ! j \<noteq> x) \<Longrightarrow> indexOf xs x = int i"
proof (induction xs arbitrary: i)
  case Nil
  then show ?case by simp
next
  case (Cons y ys)
  show ?case
  proof (cases i)
    case 0
    with Cons.prems show ?thesis by simp
  next
    case (Suc k)
    from Cons.prems Suc have "y \<noteq> x" by auto
    moreover from Cons.prems Suc have "k < length ys" "ys ! k = x" by auto
    moreover from Cons.prems Suc have "\<forall>j<k. ys ! j \<noteq> x" by auto
    ultimately show ?thesis using Cons.IH[of k] Suc by (simp add: Let_def)
  qed
qed

lemma announce_wavesurfer: "wavesurfer (announce m s) = wavesurfer s"
  by (simp add: announce_def)

lemma announce_state: "state (announce m s) = state s"
  by (simp add: announce_def)

lemma invoke_wavesurfer: "wavesurfer (invoke opts cb arg s) = wavesurfer s"
  by (simp add: invoke_def)

lemma invoke_state: "state (invoke opts cb arg s) = state s"
  by (simp add: invoke_def)

subsection \<open>Construction and teardown\<close>

lemma initializePlayer_fields:
  "m_setSpeed (initializePlayer pd p) = m_setSpeed p"
  "m_skipForward (initializePlayer pd p) = m_skipForward p"
  "m_skipBack (initializePlayer pd p) = m_skipBack p"
  "speedConfig (initializePlayer pd p) = speedConfig p"
  "skipConfig (initializePlayer pd p) = skipConfig p"
  "options (initializePlayer pd p) = options p"
  "container (initializePlayer pd p) = container p"
  "plugins (initializePlayer pd p) = plugins p"
  "state (sys (initializePlayer pd p)) = state (sys p)"
  "wavesurfer (sys (initializePlayer pd p)) \<noteq> None"
  "pending (initializePlayer pd p) = False"
  by (simp_all add: initializePlayer_def on_sys_def Let_def setupKeyboardShortcuts_def
        split: prod.splits)

lemma player_object_fields:
  "m_setSpeed (player_object opts c pg) = setSpeed"
  "m_skipForward (player_object opts c pg) = skipForward (skipConfig (player_object opts c pg))"
  "m_skipBack (player_object opts c pg) = skipBack (skipConfig (player_object opts c pg))"
  "speedConfig (player_object opts c pg)
     = normalizeSpeedConfig (f_speed (merge_features (opt_features opts)))"
  "skipConfig (player_object opts c pg)
     = normalizeSkipConfig (f_skip (merge_features (opt_features opts)))"
  "options (player_object opts c pg) = opts"
  "container (player_object opts c pg) = c"
  "plugins (player_object opts c pg) = []"
  "listeners (player_object opts c pg) = []"
  "state (sys (player_object opts c pg))
     = createInitialState\<lparr>currentSpeed := speed_defaultSpeed (speedConfig (player_object opts c pg))\<rparr>"
  "wavesurfer (sys (player_object opts c pg)) = None"
  "page (sys (player_object opts c pg)) = pg"
  "analytics_of (sys (player_object opts c pg)) = (\<lambda>k. analytics_vars0)"
  by (simp_all add: player_object_def Let_def)

lemma createPlayer_cases:
  assumes "createPlayer opts pg = Inr p"
  shows "\<exists>c. resolveContainer pg (opt_container opts) = Some c
     \<and> p = (if has_peaksUrl opts then player_object opts c pg
            else initializePlayer None (player_object opts c pg))"
  using assms by (auto simp add: createPlayer_def Let_def split: option.splits)

lemma createPlayer_fields:
  assumes "createPlayer opts pg = Inr p"
  shows "m_setSpeed p = setSpeed"
    and "m_skipForward p = skipForward (skipConfig p)"
    and "m_skipBack p = skipBack (skipConfig p)"
    and "speedConfig p = normalizeSpeedConfig (f_speed (merge_features (opt_features opts)))"
    and "skipConfig p = normalizeSkipConfig (f_skip (merge_features (opt_features opts)))"
    and "options p = opts"
    and "plugins p = []"
    and "state (sys p) = createInitialState\<lparr>currentSpeed := speed_defaultSpeed (speedConfig p)\<rparr>"
    and "has_peaksUrl opts \<Longrightarrow> wavesurfer (sys p) = None"
  using createPlayer_cases[OF assms]
  by (auto simp add: initializePlayer_fields player_object_fields)

lemma createPlayer_bound:
  assumes "createPlayer opts pg = Inr p" and "\<not> has_peaksUrl opts"
  shows "wavesurfer (sys p) \<noteq> None"
proof -
  from createPlayer_cases[OF assms(1)] assms(2) obtain p0 where "p = initializePlayer None p0"
    by auto
  then show ?thesis by (simp only: initializePlayer_fields not_False_eq_True)
qed

lemma createPlayer_Inr:
  "resolveContainer pg (opt_container opts) = Some c \<Longrightarrow> \<exists>p. createPlayer opts pg = Inr p"
  by (simp add: createPlayer_def Let_def)

lemma resolve_example: "resolveContainer example_page (Selector ''#player'') = Some 1"
  by (simp add: example_page_def resolveContainer_def querySelector_def)

lemma example_player_created: "createPlayer example_options example_page = Inr example_player"
proof -
  have "resolveContainer example_page (opt_container example_options) = Some 1"
    using resolve_example by (simp add: example_options_def)
  from createPlayer_Inr[OF this] show ?thesis by (auto simp: example_player_def)
qed

lemma example_pending_created:
  "createPlayer (example_options\<lparr>opt_peaksUrl := Some ''peaks.json''\<rparr>) example_page
     = Inr example_pending"
proof -
  have "resolveContainer example_page
          (opt_container (example_options\<lparr>opt_peaksUrl := Some ''peaks.json''\<rparr>)) = Some 1"
    using resolve_example by (simp add: example_options_def)
  from createPlayer_Inr[OF this] show ?thesis by (auto simp: example_pending_def)
qed

lemma example_pending_has_peaksUrl:
  "has_peaksUrl (example_options\<lparr>opt_peaksUrl := Some ''peaks.json''\<rparr>)"
  by (simp add: has_peaksUrl_def)

lemma example_pending_sys:
  "wavesurfer (sys example_pending) = None"
  "state (sys example_pending) = createInitialState"
  "m_setSpeed example_pending = setSpeed"
  "speed_options (speedConfig example_pending) = DEFAULT_SPEED_OPTIONS"
  using createPlayer_fields[OF example_pending_created] example_pending_has_peaksUrl
  by (simp_all add: example_options_def merge_features_def DEFAULT_FEATURES_def createInitialState_def)

lemma example_player_fields:
  "speed_options (speedConfig example_player) = DEFAULT_SPEED_OPTIONS"
  "m_setSpeed example_player = setSpeed"
  "state (sys example_player) = createInitialState"
  using createPlayer_fields[OF example_player_created]
  by (simp_all add: example_options_def merge_features_def DEFAULT_FEATURES_def createInitialState_def)

lemma destroy_wavesurfer: "wavesurfer (sys (destroy p)) = None"
  by (simp add: destroy_def Let_def on_sys_def invoke_wavesurfer)

lemma destroy_slots:
  "m_setSpeed (destroy p) = m_setSpeed p"
  "m_skipForward (destroy p) = m_skipForward p"
  "m_skipBack (destroy p) = m_skipBack p"
proof -
  have c: "\<And>cs q. m_setSpeed (fold run_cleanup cs q) = m_setSpeed q
      \<and> m_skipForward (fold run_cleanup cs q) = m_skipForward q
      \<and> m_skipBack (fold run_cleanup cs q) = m_skipBack q"
  proof -
    fix cs q show "m_setSpeed (fold run_cleanup cs q) = m_setSpeed q
      \<and> m_skipForward (fold run_cleanup cs q) = m_skipForward q
      \<and> m_skipBack (fold run_cleanup cs q) = m_skipBack q"
    proof (induction cs arbitrary: q)
      case Nil
      then show ?case by simp
    next
      case (Cons c cs)
      then show ?case by (cases c) simp_all
    qed
  qed
  have d: "\<And>ds q. m_setSpeed (fold (\<lambda>(name, d) q. case d of None \<Rightarrow> q | Some f \<Rightarrow> on_sys f q) ds q) = m_setSpeed q
      \<and> m_skipForward (fold (\<lambda>(name, d) q. case d of None \<Rightarrow> q | Some f \<Rightarrow> on_sys f q) ds q) = m_skipForward q
      \<and> m_skipBack (fold (\<lambda>(name, d) q. case d of None \<Rightarrow> q | Some f \<Rightarrow> on_sys f q) ds q) = m_skipBack q"
  proof -
    fix ds q show "m_setSpeed (fold (\<lambda>(name, d) q. case d of None \<Rightarrow> q | Some f \<Rightarrow> on_sys f q) ds q) = m_setSpeed q
      \<and> m_skipForward (fold (\<lambda>(name, d) q. case d of None \<Rightarrow> q | Some f \<Rightarrow> on_sys f q) ds q) = m_skipForward q
      \<and> m_skipBack (fold (\<lambda>(name, d) q. case d of None \<Rightarrow> q | Some f \<Rightarrow> on_sys f q) ds q) = m_skipBack q"
    proof (induction ds arbitrary: q)
      case Nil
      then show ?case by simp
    next
      case (Cons x ds)
      then show ?case by (cases x) (simp add: on_sys_def split: option.splits)
    qed
  qed
  show "m_setSpeed (destroy p) = m_setSpeed p"
    "m_skipForward (destroy p) = m_skipForward p"
    "m_skipBack (destroy p) = m_skipBack p"
    by (simp_all add: destroy_def Let_def on_sys_def c d)
qed

section \<open>The claims\<close>

subsection \<open>Operations without an engine\<close>

text \<open>
  C1, as the code has it. While the \<open>wavesurfer\<close> reference is absent, \<open>play\<close>,
  \<open>pause\<close>, \<open>playPause\<close>, \<open>seekTo\<close>, \<open>seekToTime\<close>, \<open>skipForward\<close> and
  \<open>skipBack\<close> change nothing, and \<open>getCurrentTime\<close> and \<open>getDuration\<close> return 0.
  \<open>setSpeed\<close>, \<open>setVolume\<close> and \<open>toggleMute\<close> reach no engine either, but they still
  update the player state: \<open>setSpeed\<close> stores the speed, \<open>setVolume\<close> records a
  positive clamped volume and clears the muted flag, \<open>toggleMute\<close> flips the muted flag
  (recording 1 as the previous volume when it mutes) and announces. The reference is
  absent after \<open>destroy()\<close>, and in the player \<open>createPlayer\<close> returns while the peaks
  fetch is pending. Every operation is a total function: none of them has a path that
  throws.
\<close>

theorem absent_engine_operations:
  "(wavesurfer s = None \<longrightarrow>
      play s = s \<and> pause s = s \<and> playPause s = s \<and> seekTo x s = s \<and> seekToTime x s = s
      \<and> skipForward cfg y s = s \<and> skipBack cfg y s = s
      \<and> getCurrentTime s = 0 \<and> getDuration s = 0
      \<and> setSpeed x s = s\<lparr>state := (state s)\<lparr>currentSpeed := x\<rparr>\<rparr>
      \<and> setVolume x s =
          (if 0 < max 0 (min 1 x)
           then s\<lparr>state := (state s)\<lparr>previousVolume := max 0 (min 1 x), isMuted := False\<rparr>\<rparr>
           else s)
      \<and> toggleMute s =
          (if isMuted (state s)
           then announce ''Unmuted'' (s\<lparr>state := (state s)\<lparr>isMuted := False\<rparr>\<rparr>)
           else announce ''Muted'' (s\<lparr>state := (state s)\<lparr>previousVolume := 1, isMuted := True\<rparr>\<rparr>))
      \<and> wavesurfer (toggleMute s) = None)
   \<and> wavesurfer (sys (destroy p)) = None
   \<and> (createPlayer opts pg = Inr q \<and> has_peaksUrl opts \<longrightarrow> wavesurfer (sys q) = None)"
proof (intro conjI impI)
  assume a: "wavesurfer s = None"
  show "play s = s" "pause s = s" "playPause s = s" "seekTo x s = s"
    using a by (simp_all add: play_def pause_def playPause_def seekTo_def opt_call_def)
  show "seekToTime x s = s" "skipForward cfg y s = s" "skipBack cfg y s = s"
    using a by (simp_all add: seekToTime_def skipForward_def skipBack_def opt_get_def or_num_def)
  show "getCurrentTime s = 0" "getDuration s = 0"
    using a by (simp_all add: getCurrentTime_def getDuration_def opt_get_def or_num_def)
  show "setSpeed x s = s\<lparr>state := (state s)\<lparr>currentSpeed := x\<rparr>\<rparr>"
    using a by (simp add: setSpeed_def opt_call_def)
  show "setVolume x s =
          (if 0 < max 0 (min 1 x)
           then s\<lparr>state := (state s)\<lparr>previousVolume := max 0 (min 1 x), isMuted := False\<rparr>\<rparr>
           else s)"
    using a by (simp add: setVolume_def opt_call_def Let_def)
  show t: "toggleMute s =
          (if isMuted (state s)
           then announce ''Unmuted'' (s\<lparr>state := (state s)\<lparr>isMuted := False\<rparr>\<rparr>)
           else announce ''Muted'' (s\<lparr>state := (state s)\<lparr>previousVolume := 1, isMuted := True\<rparr>\<rparr>))"
    using a by (simp add: toggleMute_def opt_call_def opt_get_def or_num_def Let_def)
  show "wavesurfer (toggleMute s) = None"
    using a by (simp add: t announce_wavesurfer)
next
  show "wavesurfer (sys (destroy p)) = None" by (rule destroy_wavesurfer)
next
  assume "createPlayer opts pg = Inr q \<and> has_peaksUrl opts"
  then show "wavesurfer (sys q) = None" using createPlayer_fields(9) by blast
qed

theorem absent_engine_operations_witness:
  "wavesurfer (sys example_pending) = None
   \<and> play (sys example_pending) = sys example_pending
   \<and> skipForward (skipConfig example_pending) None (sys example_pending) = sys example_pending
   \<and> getDuration (sys example_pending) = 0
   \<and> currentSpeed (state (setSpeed 2 (sys example_pending))) = 2
   \<and> isMuted (state (toggleMute (sys example_pending)))
   \<and> createPlayer (example_options\<lparr>opt_peaksUrl := Some ''peaks.json''\<rparr>) example_page
        = Inr example_pending
   \<and> has_peaksUrl (example_options\<lparr>opt_peaksUrl := Some ''peaks.json''\<rparr>)
   \<and> wavesurfer (sys (destroy example_pending)) = None"
  using absent_engine_operations[of "sys example_pending" 2 "skipConfig example_pending" None
          example_pending "example_options\<lparr>opt_peaksUrl := Some ''peaks.json''\<rparr>" example_page
          example_pending]
    example_pending_created example_pending_has_peaksUrl
  by (simp add: example_pending_sys announce_state createInitialState_def)

text \<open>
  C1 as stated fails: on the player returned while the peaks fetch is pending, no engine
  is bound, and yet \<open>toggleMute\<close> sets the muted flag and \<open>setSpeed\<close> changes the
  current speed. They are not no-ops.
\<close>

theorem absent_engine_counterexample:
  "wavesurfer (sys example_pending) = None
   \<and> toggleMute (sys example_pending) \<noteq> sys example_pending
   \<and> setSpeed 2 (sys example_pending) \<noteq> sys example_pending"
proof -
  have "isMuted (state (toggleMute (sys example_pending)))"
    by (simp add: toggleMute_def example_pending_sys announce_state createInitialState_def Let_def)
  moreover have "\<not> isMuted (state (sys example_pending))"
    by (simp add: example_pending_sys createInitialState_def)
  ultimately have 1: "toggleMute (sys example_pending) \<noteq> sys example_pending" by metis
  have "currentSpeed (state (setSpeed 2 (sys example_pending))) = 2"
    by (simp add: setSpeed_def opt_call_def example_pending_sys)
  moreover have "currentSpeed (state (sys example_pending)) = 1"
    by (simp add: example_pending_sys createInitialState_def)
  ultimately have 2: "setSpeed 2 (sys example_pending) \<noteq> sys example_pending" by auto
  show ?thesis using 1 2 by (simp add: example_pending_sys)
qed

subsection \<open>Mute and unmute\<close>

text \<open>
  C2, as the code has it. On an unmuted player with an engine bound, \<open>toggleMute()\<close>
  sets the engine volume to 0 and records the volume it read from the engine, whatever
  \<open>previousVolume\<close> held before; a second \<open>toggleMute()\<close> restores exactly that volume,
  for every starting volume other than 0 (so for every volume in (0, 1]). A starting
  volume of 0 is falsy for the \<open>|| 1\<close> of the mute branch: 1 is recorded, and the
  unmute sets the engine volume to 1.
\<close>

theorem toggleMute_twice:
  assumes "wavesurfer s = Some ws" and "\<not> isMuted (state s)"
  shows "opt_get ws_volume (toggleMute s) = Some 0
     \<and> isMuted (state (toggleMute s))
     \<and> previousVolume (state (toggleMute s)) = (if ws_volume ws = 0 then 1 else ws_volume ws)
     \<and> opt_get ws_volume (toggleMute (toggleMute s))
         = Some (if ws_volume ws = 0 then 1 else ws_volume ws)
     \<and> \<not> isMuted (state (toggleMute (toggleMute s)))"
  using assms
  by (simp add: toggleMute_def opt_get_def opt_call_def announce_def or_num_def ws_setVolume_def
        ws_log_def Let_def)

theorem toggleMute_twice_witness:
  "wavesurfer (example_sys (Some (example_engine 0 60 0.6))) = Some (example_engine 0 60 0.6)
   \<and> \<not> isMuted (state (example_sys (Some (example_engine 0 60 0.6))))
   \<and> opt_get ws_volume (toggleMute (example_sys (Some (example_engine 0 60 0.6)))) = Some 0
   \<and> opt_get ws_volume (toggleMute (toggleMute (example_sys (Some (example_engine 0 60 0.6)))))
       = Some 0.6"
proof -
  have 1: "wavesurfer (example_sys (Some (example_engine 0 60 0.6))) = Some (example_engine 0 60 0.6)"
    by (simp add: example_sys_def)
  have 2: "\<not> isMuted (state (example_sys (Some (example_engine 0 60 0.6))))"
    by (simp add: example_sys_def createInitialState_def)
  show ?thesis using toggleMute_twice[OF 1 2] 1 2 by (simp add: example_engine_def)
qed

text \<open>
  C2 as stated fails at the starting volume 0, which is in [0, 1]: mute, then unmute,
  leaves the engine at volume 1.
\<close>

theorem toggleMute_twice_counterexample:
  "ws_volume (example_engine 0 60 0) = 0
   \<and> \<not> isMuted (state (example_sys (Some (example_engine 0 60 0))))
   \<and> opt_get ws_volume (toggleMute (toggleMute (example_sys (Some (example_engine 0 60 0)))))
       = Some 1"
  by (simp add: toggleMute_def opt_get_def opt_call_def announce_def or_num_def ws_setVolume_def
        ws_log_def Let_def example_sys_def example_engine_def createInitialState_def)

subsection \<open>Configuration normalizers\<close>

lemma spread_defined:
  "defined v \<Longrightarrow> spread d v = overriding_opt d (read_property v)"
  "defined v \<Longrightarrow> d \<noteq> None \<Longrightarrow> spread d v \<noteq> None"
  by (cases v; cases "read_property v"; simp add: overriding_opt_def)+

lemma spread_tracker: "spread None v = overriding_opt None (read_property v)"
  by (cases v; cases "read_property v"; simp add: overriding_opt_def)

lemma enabled_defined:
  "defined v \<Longrightarrow>
   overriding_opt (Some True) (read_property v) = Some (read_property v \<noteq> Some False)"
  by (cases v; cases "read_property v"; auto simp: overriding_opt_def)

text \<open>
  The keyboard normalizer is the spread alone: it has no line
  \<open>enabled: config.enabled !== false\<close>, which the three other normalizers have. So
  an object whose key \<open>enabled\<close> holds \<open>undefined\<close> gives a result whose \<open>enabled\<close>
  is \<open>undefined\<close>, and \<open>setupKeyboardShortcuts\<close> adds no listener for it; and a key
  list that holds \<open>undefined\<close> stays \<open>undefined\<close> in the result.
\<close>

lemma normalizeKeyboardConfig_undefined:
  "key_enabled (normalizeKeyboardConfig (Config (obj\<lparr>kb_enabled := Holds None\<rparr>))) = None"
  "setupKeyboardShortcuts (Config (obj\<lparr>kb_enabled := Holds None\<rparr>)) p = (NoopCleanup, p)"
  "key_playPause (normalizeKeyboardConfig (Config (obj\<lparr>kb_playPause := Holds None\<rparr>))) = None"
  by (simp_all add: setupKeyboardShortcuts_def truthy_def)

text \<open>
  The analytics normalizer resolves \<open>enabled\<close> after the spread; a track flag that
  holds \<open>undefined\<close> stays \<open>undefined\<close> in the result.
\<close>

lemma normalizeAnalyticsConfig_undefined:
  "ana_enabled (normalizeAnalyticsConfig (Config (obj\<lparr>an_enabled := Holds None\<rparr>)))"
  "ana_trackSpeedChange
     (normalizeAnalyticsConfig (Config (obj\<lparr>an_trackSpeedChange := Holds None\<rparr>))) = None"
  by (simp_all add: not_false_def)

text \<open>
  C3, as the code has it. Each of the four normalizers follows the three-way rule:
  \<open>false\<close> gives the defaults with \<open>enabled: false\<close>, \<open>true\<close> and \<open>undefined\<close> give
  the defaults with \<open>enabled: true\<close>, and an object gives the defaults overridden by the
  fields the object has, with \<open>enabled\<close> resolved to \<open>object.enabled !== false\<close>.
  In the speed and the skip normalizer a numeric field that is 0 counts as absent (the
  code reads it with \<open>||\<close>), so \<open>defaultSpeed: 0\<close> gives 1 and \<open>seconds: 0\<close> gives 15.
  For the keyboard and the analytics normalizer the rule is stated of an object none of
  whose keys holds \<open>undefined\<close> (each key is absent or holds a value; for the analytics
  object this is asked of the track flags only), and then every field of the result is
  populated, but the analytics tracker, whose default is \<open>undefined\<close>. The results of
  the speed and the skip normalizer have every field populated for every object.
\<close>

theorem normalizers_three_way:
  "normalizeSpeedConfig c1 =
     spec_three_way spec_speed_defaults (\<lambda>b r. r\<lparr>speed_enabled := b\<rparr>) spec_speed_override
       sp_enabled (map_feature (\<lambda>obj. obj\<lparr>sp_defaultSpeed := drop_zero (sp_defaultSpeed obj)\<rparr>) c1)
   \<and> normalizeSkipConfig c2 =
     spec_three_way spec_skip_defaults (\<lambda>b r. r\<lparr>skip_enabled := b\<rparr>) spec_skip_override
       sk_enabled (map_feature (\<lambda>obj. obj\<lparr>sk_seconds := drop_zero (sk_seconds obj)\<rparr>) c2)
   \<and> (feature_object keyboard_defined c3 \<longrightarrow>
        normalizeKeyboardConfig c3 =
          spec_three_way DEFAULT_KEYBOARD_CONFIG (\<lambda>b r. r\<lparr>key_enabled := Some b\<rparr>)
            spec_keyboard_override (\<lambda>obj. read_property (kb_enabled obj)) c3
        \<and> keyboard_populated (normalizeKeyboardConfig c3))
   \<and> (feature_object analytics_defined c4 \<longrightarrow>
        normalizeAnalyticsConfig c4 =
          spec_three_way DEFAULT_ANALYTICS_CONFIG (\<lambda>b r. r\<lparr>ana_enabled := b\<rparr>)
            spec_analytics_override (\<lambda>obj. read_property (an_enabled obj)) c4
        \<and> analytics_populated (normalizeAnalyticsConfig c4))
   \<and> ana_tracker DEFAULT_ANALYTICS_CONFIG = None"
proof (intro conjI impI)
  show "normalizeSpeedConfig c1 =
     spec_three_way spec_speed_defaults (\<lambda>b r. r\<lparr>speed_enabled := b\<rparr>) spec_speed_override
       sp_enabled (map_feature (\<lambda>obj. obj\<lparr>sp_defaultSpeed := drop_zero (sp_defaultSpeed obj)\<rparr>) c1)"
  proof (cases c1)
    case (Bool b)
    then show ?thesis by (cases b) (simp_all add: spec_three_way_def spec_speed_defaults_def)
  next
    case Undefined
    then show ?thesis by (simp add: spec_three_way_def spec_speed_defaults_def)
  next
    case (Config obj)
    then show ?thesis
      by (simp add: spec_three_way_def spec_speed_override_def spec_speed_defaults_def
            not_false_def or_array_def overriding_def or_num_drop_zero split: option.splits)
  qed
  show "normalizeSkipConfig c2 =
     spec_three_way spec_skip_defaults (\<lambda>b r. r\<lparr>skip_enabled := b\<rparr>) spec_skip_override
       sk_enabled (map_feature (\<lambda>obj. obj\<lparr>sk_seconds := drop_zero (sk_seconds obj)\<rparr>) c2)"
  proof (cases c2)
    case (Bool b)
    then show ?thesis by (cases b) (simp_all add: spec_three_way_def spec_skip_defaults_def)
  next
    case Undefined
    then show ?thesis by (simp add: spec_three_way_def spec_skip_defaults_def)
  next
    case (Config obj)
    then show ?thesis
      by (simp add: spec_three_way_def spec_skip_override_def spec_skip_defaults_def
            not_false_def overriding_def or_num_drop_zero split: option.splits)
  qed
next
  assume d: "feature_object keyboard_defined c3"
  show "normalizeKeyboardConfig c3 =
          spec_three_way DEFAULT_KEYBOARD_CONFIG (\<lambda>b r. r\<lparr>key_enabled := Some b\<rparr>)
            spec_keyboard_override (\<lambda>obj. read_property (kb_enabled obj)) c3"
  proof (cases c3)
    case (Bool b)
    then show ?thesis by (cases b) (simp_all add: spec_three_way_def DEFAULT_KEYBOARD_CONFIG_def)
  next
    case Undefined
    then show ?thesis by (simp add: spec_three_way_def DEFAULT_KEYBOARD_CONFIG_def)
  next
    case (Config obj)
    with d have "keyboard_defined obj" by simp
    with Config show ?thesis
      by (simp add: spec_three_way_def spec_keyboard_override_def keyboard_defined_def
            DEFAULT_KEYBOARD_CONFIG_def spread_defined(1) enabled_defined)
  qed
  show "keyboard_populated (normalizeKeyboardConfig c3)"
  proof (cases c3)
    case (Bool b)
    then show ?thesis
      by (cases b) (simp_all add: keyboard_populated_def DEFAULT_KEYBOARD_CONFIG_def)
  next
    case Undefined
    then show ?thesis by (simp add: keyboard_populated_def DEFAULT_KEYBOARD_CONFIG_def)
  next
    case (Config obj)
    with d have "keyboard_defined obj" by simp
    with Config show ?thesis
      by (simp add: keyboard_populated_def keyboard_defined_def DEFAULT_KEYBOARD_CONFIG_def
            spread_defined(2))
  qed
next
  assume d: "feature_object analytics_defined c4"
  show "normalizeAnalyticsConfig c4 =
          spec_three_way DEFAULT_ANALYTICS_CONFIG (\<lambda>b r. r\<lparr>ana_enabled := b\<rparr>)
            spec_analytics_override (\<lambda>obj. read_property (an_enabled obj)) c4"
  proof (cases c4)
    case (Bool b)
    then show ?thesis by (cases b) (simp_all add: spec_three_way_def DEFAULT_ANALYTICS_CONFIG_def)
  next
    case Undefined
    then show ?thesis by (simp add: spec_three_way_def DEFAULT_ANALYTICS_CONFIG_def)
  next
    case (Config obj)
    with d have "analytics_defined obj" by simp
    with Config show ?thesis
      by (simp add: spec_three_way_def spec_analytics_override_def analytics_defined_def
            DEFAULT_ANALYTICS_CONFIG_def not_false_def spread_defined(1) spread_tracker)
  qed
  show "analytics_populated (normalizeAnalyticsConfig c4)"
  proof (cases c4)
    case (Bool b)
    then show ?thesis
      by (cases b) (simp_all add: analytics_populated_def DEFAULT_ANALYTICS_CONFIG_def)
  next
    case Undefined
    then show ?thesis by (simp add: analytics_populated_def DEFAULT_ANALYTICS_CONFIG_def)
  next
    case (Config obj)
    with d have "analytics_defined obj" by simp
    with Config show ?thesis
      by (simp add: analytics_populated_def analytics_defined_def DEFAULT_ANALYTICS_CONFIG_def
            spread_defined(2))
  qed
next
  show "ana_tracker DEFAULT_ANALYTICS_CONFIG = None"
    by (simp add: DEFAULT_ANALYTICS_CONFIG_def)
qed

theorem normalizers_three_way_witness:
  "normalizeSpeedConfig (Config \<lparr>sp_enabled = None, sp_options = Some [1, 2], sp_defaultSpeed = None\<rparr>)
     = \<lparr>speed_enabled = True, speed_options = [1, 2], speed_defaultSpeed = 1\<rparr>
   \<and> normalizeSkipConfig (Bool False) = \<lparr>skip_enabled = False, skip_seconds = 15\<rparr>
   \<and> feature_object keyboard_defined (Config example_keys)
   \<and> normalizeKeyboardConfig (Config example_keys) =
       DEFAULT_KEYBOARD_CONFIG\<lparr>key_mute := Some [''x''], key_showHints := Some False\<rparr>
   \<and> keyboard_populated (normalizeKeyboardConfig (Config example_keys))
   \<and> feature_object analytics_defined (example_analytics 1)
   \<and> normalizeAnalyticsConfig (example_analytics 1) =
       DEFAULT_ANALYTICS_CONFIG\<lparr>ana_tracker := Some (Custom 1), ana_trackView := Some False\<rparr>
   \<and> analytics_populated (normalizeAnalyticsConfig (example_analytics 1))"
proof -
  have k: "feature_object keyboard_defined (Config example_keys)"
    by (simp add: keyboard_defined_def example_keys_def)
  have a: "feature_object analytics_defined (example_analytics 1)"
    by (simp add: analytics_defined_def example_analytics_def)
  from normalizers_three_way[of
      "Config \<lparr>sp_enabled = None, sp_options = Some [1, 2], sp_defaultSpeed = None\<rparr>"
      "Bool False" "Config example_keys" "example_analytics 1"] k a
  show ?thesis
    by (simp add: spec_three_way_def spec_speed_defaults_def spec_speed_override_def
        spec_skip_defaults_def DEFAULT_SKIP_SECONDS_def DEFAULT_KEYBOARD_CONFIG_def
        DEFAULT_ANALYTICS_CONFIG_def overriding_def overriding_opt_def drop_zero_def
        spec_keyboard_override_def spec_analytics_override_def example_keys_def
        example_analytics_def not_false_def)
qed

text \<open>
  C3 as stated fails for the skip normalizer (and likewise for the speed normalizer): the
  object \<open>{enabled: true, seconds: 0}\<close> has the field \<open>seconds\<close>, and the result
  holds the default 15, not the object's 0.
\<close>

theorem normalizers_three_way_counterexample:
  "skip_seconds (normalizeSkipConfig (Config \<lparr>sk_enabled = Some True, sk_seconds = Some 0\<rparr>)) = 15
   \<and> skip_seconds
        (spec_three_way spec_skip_defaults (\<lambda>b r. r\<lparr>skip_enabled := b\<rparr>) spec_skip_override
           sk_enabled (Config \<lparr>sk_enabled = Some True, sk_seconds = Some 0\<rparr>)) = 0
   \<and> speed_defaultSpeed
        (normalizeSpeedConfig
           (Config \<lparr>sp_enabled = Some True, sp_options = None, sp_defaultSpeed = Some 0\<rparr>)) = 1"
  by (simp add: spec_three_way_def spec_skip_override_def spec_skip_defaults_def not_false_def
        overriding_def or_num_def DEFAULT_SKIP_SECONDS_def)

subsection \<open>Cycling the speed\<close>

lemma cycleSpeed_value:
  assumes "speed_options (speedConfig p) \<noteq> []"
  shows "cycleSpeed p = Some (on_sys (m_setSpeed p (speed_options (speedConfig p) !
            nat ((indexOf (speed_options (speedConfig p)) (currentSpeed (state (sys p))) + 1)
                   mod int (length (speed_options (speedConfig p)))))) p)"
proof -
  let ?os = "speed_options (speedConfig p)"
  let ?i = "indexOf ?os (currentSpeed (state (sys p)))"
  have "0 \<le> (?i + 1) mod int (length ?os)" "(?i + 1) mod int (length ?os) < int (length ?os)"
    using assms by auto
  then show ?thesis using assms by (simp add: cycleSpeed_def Let_def at_index_def)
qed

lemma setSpeed_currentSpeed: "currentSpeed (state (setSpeed x s)) = x"
  by (simp add: setSpeed_def opt_call_def split: option.splits)

text \<open>
  C4, as the code has it. With a non-empty options list, \<open>cycleSpeed()\<close> calls
  \<open>setSpeed\<close> with the entry after the first occurrence of the current speed, wrapping
  from the last entry to the first. When the current speed is not an option,
  \<open>indexOf\<close> gives -1 and the next index is 0: \<open>cycleSpeed()\<close> moves to the first
  entry, and does not fail. There is no fallback to the index of 1.
\<close>

theorem cycleSpeed_next:
  assumes "speed_options (speedConfig p) \<noteq> []"
  shows "\<exists>v. cycleSpeed p = Some (on_sys (m_setSpeed p v) p)
     \<and> (m_setSpeed p = setSpeed \<longrightarrow> currentSpeed (state (sys (on_sys (m_setSpeed p v) p))) = v)
     \<and> (currentSpeed (state (sys p)) \<notin> set (speed_options (speedConfig p)) \<longrightarrow>
          v = speed_options (speedConfig p) ! 0)
     \<and> (\<forall>i < length (speed_options (speedConfig p)).
          speed_options (speedConfig p) ! i = currentSpeed (state (sys p))
          \<and> (\<forall>j<i. speed_options (speedConfig p) ! j \<noteq> currentSpeed (state (sys p))) \<longrightarrow>
          v = speed_options (speedConfig p) ! ((i + 1) mod length (speed_options (speedConfig p))))"
proof -
  let ?os = "speed_options (speedConfig p)"
  let ?c = "currentSpeed (state (sys p))"
  let ?v = "?os ! nat ((indexOf ?os ?c + 1) mod int (length ?os))"
  have q: "cycleSpeed p = Some (on_sys (m_setSpeed p ?v) p)"
    using cycleSpeed_value[OF assms] .
  have cs: "m_setSpeed p = setSpeed \<longrightarrow>
      currentSpeed (state (sys (on_sys (m_setSpeed p ?v) p))) = ?v"
    by (simp add: on_sys_def setSpeed_currentSpeed)
  have a: "?c \<notin> set ?os \<longrightarrow> ?v = ?os ! 0"
    using assms by (auto simp: indexOf_absent)
  have b: "\<forall>i < length ?os. ?os ! i = ?c \<and> (\<forall>j<i. ?os ! j \<noteq> ?c) \<longrightarrow>
      ?v = ?os ! ((i + 1) mod length ?os)"
  proof (intro allI impI)
    fix i assume i: "i < length ?os" and h: "?os ! i = ?c \<and> (\<forall>j<i. ?os ! j \<noteq> ?c)"
    then have "indexOf ?os ?c = int i" using indexOf_first[of i ?os ?c] by blast
    moreover have "nat ((int i + 1) mod int (length ?os)) = (i + 1) mod length ?os"
      by (metis nat_int of_nat_1 of_nat_add zmod_int)
    ultimately show "?v = ?os ! ((i + 1) mod length ?os)" by simp
  qed
  show ?thesis
    by (rule exI[of _ ?v]) (intro conjI q cs a b)
qed

theorem cycleSpeed_next_witness:
  "speed_options (speedConfig (on_sys (setSpeed 2) example_player)) \<noteq> []
   \<and> (\<exists>q. cycleSpeed (on_sys (setSpeed 2) example_player) = Some q
          \<and> currentSpeed (state (sys q)) = 0.5)"
proof -
  let ?p = "on_sys (setSpeed 2) example_player"
  have os: "speed_options (speedConfig ?p) = DEFAULT_SPEED_OPTIONS"
    and m: "m_setSpeed ?p = setSpeed"
    using example_player_fields by (simp_all add: on_sys_def)
  have c: "currentSpeed (state (sys ?p)) = 2"
    by (simp add: on_sys_def setSpeed_currentSpeed)
  have ne: "speed_options (speedConfig ?p) \<noteq> []"
    by (simp add: os DEFAULT_SPEED_OPTIONS_def)
  from cycleSpeed_next[OF ne] obtain v where
    v1: "cycleSpeed ?p = Some (on_sys (m_setSpeed ?p v) ?p)"
    and v2: "m_setSpeed ?p = setSpeed \<longrightarrow>
      currentSpeed (state (sys (on_sys (m_setSpeed ?p v) ?p))) = v"
    and v3: "\<forall>i < length (speed_options (speedConfig ?p)).
          speed_options (speedConfig ?p) ! i = currentSpeed (state (sys ?p))
          \<and> (\<forall>j<i. speed_options (speedConfig ?p) ! j \<noteq> currentSpeed (state (sys ?p))) \<longrightarrow>
          v = speed_options (speedConfig ?p) ! ((i + 1) mod length (speed_options (speedConfig ?p)))"
    by blast
  have six: "\<forall>j<6. DEFAULT_SPEED_OPTIONS ! j \<noteq> (2::real)"
  proof (intro allI impI)
    fix j :: nat assume "j < 6"
    then have "j = 0 \<or> j = 1 \<or> j = 2 \<or> j = 3 \<or> j = 4 \<or> j = 5" by arith
    then show "DEFAULT_SPEED_OPTIONS ! j \<noteq> (2::real)"
      by (auto simp: DEFAULT_SPEED_OPTIONS_def)
  qed
  have l: "6 < length DEFAULT_SPEED_OPTIONS" by (simp add: DEFAULT_SPEED_OPTIONS_def)
  have "DEFAULT_SPEED_OPTIONS ! 6 = (2::real)" by (simp add: DEFAULT_SPEED_OPTIONS_def)
  with six have h: "DEFAULT_SPEED_OPTIONS ! 6 = (2::real)
      \<and> (\<forall>j<6. DEFAULT_SPEED_OPTIONS ! j \<noteq> (2::real))" by blast
  have "v = DEFAULT_SPEED_OPTIONS ! ((6 + 1) mod length DEFAULT_SPEED_OPTIONS)"
    using v3[unfolded os c, rule_format, OF l h] .
  then have "v = 0.5" by (simp add: DEFAULT_SPEED_OPTIONS_def)
  with v1 v2 m ne show ?thesis by auto
qed

text \<open>
  C4 as stated fails where the current speed is not an option: from 1.1, over the default
  options, \<open>cycleSpeed()\<close> moves to 0.5, the first entry; the fallback the claim
  describes (the index of 1, then the next entry) would move to 1.25.
\<close>

theorem cycleSpeed_counterexample:
  "\<exists>q. cycleSpeed (on_sys (setSpeed 1.1) example_player) = Some q
    \<and> currentSpeed (state (sys q)) = 0.5
    \<and> spec_cycleSpeed (speed_options (speedConfig example_player)) 1.1 = 1.25"
proof -
  let ?p = "on_sys (setSpeed 1.1) example_player"
  have os: "speed_options (speedConfig ?p) = DEFAULT_SPEED_OPTIONS"
    and m: "m_setSpeed ?p = setSpeed"
    using example_player_fields by (simp_all add: on_sys_def)
  have c: "currentSpeed (state (sys ?p)) = 1.1"
    by (simp add: on_sys_def setSpeed_currentSpeed)
  have ne: "speed_options (speedConfig ?p) \<noteq> []"
    by (simp add: os DEFAULT_SPEED_OPTIONS_def)
  have i: "indexOf DEFAULT_SPEED_OPTIONS (1.1::real) = -1"
    by (simp add: DEFAULT_SPEED_OPTIONS_def)
  have "cycleSpeed ?p = Some (on_sys (setSpeed (DEFAULT_SPEED_OPTIONS ! 0)) ?p)"
    using cycleSpeed_value[OF ne] by (simp add: os m c i)
  moreover have "currentSpeed (state (sys (on_sys (setSpeed (DEFAULT_SPEED_OPTIONS ! 0)) ?p))) = 0.5"
    by (simp add: on_sys_def setSpeed_currentSpeed DEFAULT_SPEED_OPTIONS_def)
  moreover have "spec_cycleSpeed (speed_options (speedConfig example_player)) 1.1 = 1.25"
    by (simp add: example_player_fields spec_cycleSpeed_def spec_currentIndex_def
          DEFAULT_SPEED_OPTIONS_def Let_def)
  ultimately show ?thesis by blast
qed

subsection \<open>Skipping\<close>

lemma skipForward_bound:
  assumes "wavesurfer s = Some ws" and "0 < ws_duration ws"
  shows "skipForward cfg y s =
     s\<lparr>wavesurfer := Some (ws_seekTo
        (max 0 (min (ws_duration ws) (ws_currentTime ws + nullish y (skip_seconds cfg)))
           / ws_duration ws) ws)\<rparr>"
proof -
  let ?d = "ws_duration ws"
  let ?n = "min ?d (ws_currentTime ws + nullish y (skip_seconds cfg))"
  have "max 0 (min 1 (?n / ?d)) = max 0 ?n / ?d"
    using assms(2) by (auto simp: min_def max_def field_simps)
  moreover have "max 0 ?n = max 0 (min ?d (ws_currentTime ws + nullish y (skip_seconds cfg)))"
    by simp
  ultimately show ?thesis
    using assms by (simp add: skipForward_def seekTo_def opt_call_def opt_get_def or_num_def Let_def)
qed

lemma skipBack_bound:
  assumes "wavesurfer s = Some ws" and "0 < ws_duration ws"
  shows "skipBack cfg y s =
     s\<lparr>wavesurfer := Some (ws_seekTo
        (max 0 (min (ws_duration ws) (ws_currentTime ws - nullish y (skip_seconds cfg)))
           / ws_duration ws) ws)\<rparr>"
proof -
  let ?d = "ws_duration ws"
  let ?n = "max 0 (ws_currentTime ws - nullish y (skip_seconds cfg))"
  have "max 0 (min 1 (?n / ?d))
      = max 0 (min ?d (ws_currentTime ws - nullish y (skip_seconds cfg))) / ?d"
    using assms(2) by (auto simp: min_def max_def field_simps)
  then show ?thesis
    using assms by (simp add: skipBack_def seekTo_def opt_call_def opt_get_def or_num_def Let_def)
qed

lemma ws_seekTo_time:
  "0 < ws_duration ws \<Longrightarrow> ws_currentTime (ws_seekTo (t / ws_duration ws) ws) = t"
  by (simp add: ws_seekTo_def ws_log_def)

lemma ws_seekTo_calls: "ws_calls (ws_seekTo q ws) = ws_calls ws @ [WsSeekTo q]"
  by (simp add: ws_seekTo_def ws_log_def)

text \<open>
  C8. With an engine bound and a positive duration, \<open>skipForward\<close> and \<open>skipBack\<close>
  issue one engine seek, with a progress in [0, 1]; for any skip amount and any current
  time the engine's position after it is the target time (the current time plus,
  respectively minus, the skip amount, the amount being the argument or the configured
  default) clamped to [0, duration], so never above the duration and never below 0. The
  player state is unchanged. With no engine, or a duration that is 0 (or negative),
  both are no-ops: nothing changes and no seek is issued. \<open>createPlayer\<close> binds the
  two functions, with the normalized skip configuration, to \<open>player.skipForward\<close> and
  \<open>player.skipBack\<close>.
\<close>

theorem skip_clamped:
  "(wavesurfer s = Some ws \<and> 0 < ws_duration ws \<longrightarrow>
      (\<exists>q t. skipForward cfg y s = s\<lparr>wavesurfer := Some (ws_seekTo q ws)\<rparr>
         \<and> 0 \<le> q \<and> q \<le> 1
         \<and> ws_currentTime (ws_seekTo q ws) = t
         \<and> t = max 0 (min (ws_duration ws) (ws_currentTime ws + nullish y (skip_seconds cfg)))
         \<and> 0 \<le> t \<and> t \<le> ws_duration ws)
      \<and> (\<exists>q t. skipBack cfg y s = s\<lparr>wavesurfer := Some (ws_seekTo q ws)\<rparr>
         \<and> 0 \<le> q \<and> q \<le> 1
         \<and> ws_currentTime (ws_seekTo q ws) = t
         \<and> t = max 0 (min (ws_duration ws) (ws_currentTime ws - nullish y (skip_seconds cfg)))
         \<and> 0 \<le> t \<and> t \<le> ws_duration ws))
   \<and> (wavesurfer s = None \<or> (\<exists>ws. wavesurfer s = Some ws \<and> ws_duration ws \<le> 0) \<longrightarrow>
        skipForward cfg y s = s \<and> skipBack cfg y s = s)
   \<and> (createPlayer opts pg = Inr p \<longrightarrow>
        m_skipForward p = skipForward (skipConfig p) \<and> m_skipBack p = skipBack (skipConfig p))"
proof (intro conjI impI)
  assume a: "wavesurfer s = Some ws \<and> 0 < ws_duration ws"
  let ?d = "ws_duration ws"
  have clamp: "\<And>u. 0 \<le> max 0 (min ?d u) / ?d \<and> max 0 (min ?d u) / ?d \<le> 1
      \<and> 0 \<le> max 0 (min ?d u) \<and> max 0 (min ?d u) \<le> ?d"
    using a by (auto simp: min_def max_def field_simps)
  let ?tf = "max 0 (min ?d (ws_currentTime ws + nullish y (skip_seconds cfg)))"
  let ?tb = "max 0 (min ?d (ws_currentTime ws - nullish y (skip_seconds cfg)))"
  show "\<exists>q t. skipForward cfg y s = s\<lparr>wavesurfer := Some (ws_seekTo q ws)\<rparr>
         \<and> 0 \<le> q \<and> q \<le> 1
         \<and> ws_currentTime (ws_seekTo q ws) = t
         \<and> t = max 0 (min (ws_duration ws) (ws_currentTime ws + nullish y (skip_seconds cfg)))
         \<and> 0 \<le> t \<and> t \<le> ws_duration ws"
    using a skipForward_bound[of s ws cfg y] ws_seekTo_time[of ws ?tf] clamp[of "ws_currentTime ws + nullish y (skip_seconds cfg)"]
    by (intro exI[of _ "?tf / ?d"] exI[of _ ?tf]) simp
  show "\<exists>q t. skipBack cfg y s = s\<lparr>wavesurfer := Some (ws_seekTo q ws)\<rparr>
         \<and> 0 \<le> q \<and> q \<le> 1
         \<and> ws_currentTime (ws_seekTo q ws) = t
         \<and> t = max 0 (min (ws_duration ws) (ws_currentTime ws - nullish y (skip_seconds cfg)))
         \<and> 0 \<le> t \<and> t \<le> ws_duration ws"
    using a skipBack_bound[of s ws cfg y] ws_seekTo_time[of ws ?tb] clamp[of "ws_currentTime ws - nullish y (skip_seconds cfg)"]
    by (intro exI[of _ "?tb / ?d"] exI[of _ ?tb]) simp
next
  assume "wavesurfer s = None \<or> (\<exists>ws. wavesurfer s = Some ws \<and> ws_duration ws \<le> 0)"
  then show "skipForward cfg y s = s" "skipBack cfg y s = s"
    by (auto simp add: skipForward_def skipBack_def opt_get_def or_num_def Let_def)
next
  assume c: "createPlayer opts pg = Inr p"
  show "m_skipForward p = skipForward (skipConfig p)" "m_skipBack p = skipBack (skipConfig p)"
    using createPlayer_fields(2,3)[OF c] .
qed

theorem skip_clamped_witness:
  "wavesurfer (example_sys (Some (example_engine 50 60 1))) = Some (example_engine 50 60 1)
   \<and> 0 < ws_duration (example_engine 50 60 1)
   \<and> opt_get ws_currentTime
        (skipForward \<lparr>skip_enabled = True, skip_seconds = 15\<rparr> None
           (example_sys (Some (example_engine 50 60 1)))) = Some 60
   \<and> opt_get ws_currentTime
        (skipBack \<lparr>skip_enabled = True, skip_seconds = 15\<rparr> (Some 80)
           (example_sys (Some (example_engine 50 60 1)))) = Some 0
   \<and> wavesurfer (example_sys None) = None
   \<and> skipForward \<lparr>skip_enabled = True, skip_seconds = 15\<rparr> None (example_sys None)
        = example_sys None
   \<and> createPlayer example_options example_page = Inr example_player
   \<and> m_skipForward example_player = skipForward (skipConfig example_player)
   \<and> m_skipBack example_player = skipBack (skipConfig example_player)"
proof -
  let ?s = "example_sys (Some (example_engine 50 60 1))"
  let ?c = "\<lparr>skip_enabled = True, skip_seconds = 15\<rparr>"
  have 1: "wavesurfer ?s = Some (example_engine 50 60 1) \<and> 0 < ws_duration (example_engine 50 60 1)"
    by (simp add: example_sys_def example_engine_def)
  have f: "ws_currentTime (example_engine 50 60 1) = 50" "ws_duration (example_engine 50 60 1) = 60"
    by (simp_all add: example_engine_def)
  from skip_clamped[where s = ?s and ws = "example_engine 50 60 1" and cfg = ?c and y = None,
      THEN conjunct1] 1
  have a: "opt_get ws_currentTime (skipForward ?c None ?s) = Some 60"
    by (auto simp add: opt_get_def nullish_def f)
  from skip_clamped[where s = ?s and ws = "example_engine 50 60 1" and cfg = ?c
      and y = "Some 80", THEN conjunct1] 1
  have b: "opt_get ws_currentTime (skipBack ?c (Some 80) ?s) = Some 0"
    by (auto simp add: opt_get_def nullish_def f)
  have 2: "wavesurfer (example_sys None) = None" by (simp add: example_sys_def)
  from skip_clamped[where s = "example_sys None" and cfg = ?c and y = None,
      THEN conjunct2, THEN conjunct1] 2
  have c: "skipForward ?c None (example_sys None) = example_sys None" by blast
  have 3: "createPlayer example_options example_page = Inr example_player"
    by (rule example_player_created)
  from skip_clamped[where opts = example_options and pg = example_page and p = example_player,
      THEN conjunct2, THEN conjunct2] 3
  have d: "m_skipForward example_player = skipForward (skipConfig example_player)
      \<and> m_skipBack example_player = skipBack (skipConfig example_player)" by blast
  from 1 a b 2 c 3 d show ?thesis by blast
qed

subsection \<open>Keyboard guards\<close>

text \<open>
  C9. While an \<open>input\<close>, \<open>textarea\<close> or \<open>select\<close> element, or a content-editable
  element, has the focus, and while \<open>isReady\<close> is false, the keydown listener returns at
  once for every key and every key configuration (also one with a key list that holds
  \<open>undefined\<close>: the guards come before the first read of a list, so nothing is
  thrown): the player is unchanged, no operation is called and \<open>preventDefault\<close> is
  not called.
\<close>

theorem keyboard_guards:
  "(\<exists>e. activeElement (page (sys p)) = Some e
        \<and> (tagName e \<in> {''INPUT'', ''TEXTAREA'', ''SELECT''} \<or> isContentEditable e))
     \<or> \<not> isReady (state (sys p))
   \<longrightarrow> handleKeyDown cfg key p = Inr (p, False) \<and> keydown_event key p = (p, False)"
proof
  assume a: "(\<exists>e. activeElement (page (sys p)) = Some e
        \<and> (tagName e \<in> {''INPUT'', ''TEXTAREA'', ''SELECT''} \<or> isContentEditable e))
     \<or> \<not> isReady (state (sys p))"
  then have g: "isInputFocused (page (sys p)) \<or> \<not> isReady (state (sys p))"
    by (auto simp: isInputFocused_def)
  then have "\<And>c. handleKeyDown c key p = Inr (p, False)"
    by (auto simp: handleKeyDown_def)
  then show "handleKeyDown cfg key p = Inr (p, False) \<and> keydown_event key p = (p, False)"
    by (simp add: keydown_event_def split: option.splits)
qed

theorem keyboard_guards_witness:
  "\<not> isReady (state (sys example_player))
   \<and> handleKeyDown DEFAULT_KEYBOARD_CONFIG '' '' example_player = Inr (example_player, False)
   \<and> keydown_event ''m'' example_player = (example_player, False)
   \<and> isReady (state (sys (on_sys (\<lambda>s. s\<lparr>state := (state s)\<lparr>isReady := True\<rparr>,
          page := (page s)\<lparr>activeElement := Some \<lparr>node = 3, el_id = ''search'',
            tagName = ''INPUT'', classList = [], isContentEditable = False,
            textContent = []\<rparr>\<rparr>\<rparr>) example_player)))
   \<and> handleKeyDown DEFAULT_KEYBOARD_CONFIG '' ''
        (on_sys (\<lambda>s. s\<lparr>state := (state s)\<lparr>isReady := True\<rparr>,
          page := (page s)\<lparr>activeElement := Some \<lparr>node = 3, el_id = ''search'',
            tagName = ''INPUT'', classList = [], isContentEditable = False,
            textContent = []\<rparr>\<rparr>\<rparr>) example_player)
      = Inr (on_sys (\<lambda>s. s\<lparr>state := (state s)\<lparr>isReady := True\<rparr>,
          page := (page s)\<lparr>activeElement := Some \<lparr>node = 3, el_id = ''search'',
            tagName = ''INPUT'', classList = [], isContentEditable = False,
            textContent = []\<rparr>\<rparr>\<rparr>) example_player, False)"
  using keyboard_guards[of example_player DEFAULT_KEYBOARD_CONFIG "'' ''"]
    keyboard_guards[of example_player DEFAULT_KEYBOARD_CONFIG "''m''"]
    keyboard_guards[of "on_sys (\<lambda>s. s\<lparr>state := (state s)\<lparr>isReady := True\<rparr>,
          page := (page s)\<lparr>activeElement := Some \<lparr>node = 3, el_id = ''search'',
            tagName = ''INPUT'', classList = [], isContentEditable = False,
            textContent = []\<rparr>\<rparr>\<rparr>) example_player" DEFAULT_KEYBOARD_CONFIG "'' ''"]
  by (simp add: example_player_fields createInitialState_def on_sys_def)

subsection \<open>Setting the speed\<close>

text \<open>
  C10. \<open>setSpeed(s)\<close> sets \<open>state.currentSpeed\<close> to \<open>s\<close> for every number \<open>s\<close>,
  whatever the speed options are, and changes nothing else of the player state; the rate
  is forwarded to the engine when one is bound, and when none is bound (before the
  engine is created, after \<open>destroy()\<close>) the state update is all that happens.
  \<open>createPlayer\<close> binds this function to \<open>player.setSpeed\<close>, and \<open>destroy()\<close> leaves
  it bound.
\<close>

theorem setSpeed_unconditional:
  "state (setSpeed x s) = (state s)\<lparr>currentSpeed := x\<rparr>
   \<and> currentSpeed (state (setSpeed x s)) = x
   \<and> wavesurfer (setSpeed x s) = map_option (ws_setPlaybackRate x) (wavesurfer s)
   \<and> (wavesurfer s = None \<longrightarrow> setSpeed x s = s\<lparr>state := (state s)\<lparr>currentSpeed := x\<rparr>\<rparr>)
   \<and> (createPlayer opts pg = Inr p \<longrightarrow>
        m_setSpeed p = setSpeed \<and> m_setSpeed (destroy p) = setSpeed
        \<and> wavesurfer (sys (destroy p)) = None)"
proof (intro conjI impI)
  show "state (setSpeed x s) = (state s)\<lparr>currentSpeed := x\<rparr>"
    "currentSpeed (state (setSpeed x s)) = x"
    "wavesurfer (setSpeed x s) = map_option (ws_setPlaybackRate x) (wavesurfer s)"
    by (simp_all add: setSpeed_def opt_call_def split: option.splits)
next
  assume "wavesurfer s = None"
  then show "setSpeed x s = s\<lparr>state := (state s)\<lparr>currentSpeed := x\<rparr>\<rparr>"
    by (simp add: setSpeed_def opt_call_def)
next
  assume c: "createPlayer opts pg = Inr p"
  show "m_setSpeed p = setSpeed" using createPlayer_fields(1)[OF c] .
  then show "m_setSpeed (destroy p) = setSpeed" by (simp add: destroy_slots)
  show "wavesurfer (sys (destroy p)) = None" by (rule destroy_wavesurfer)
qed

theorem setSpeed_unconditional_witness:
  "wavesurfer (sys example_pending) = None
   \<and> 3 \<notin> set (speed_options (speedConfig example_pending))
   \<and> currentSpeed (state (setSpeed 3 (sys example_pending))) = 3
   \<and> wavesurfer (setSpeed 3 (sys example_pending)) = None
   \<and> createPlayer example_options example_page = Inr example_player
   \<and> currentSpeed (state (m_setSpeed (destroy example_player) 3 (sys (destroy example_player)))) = 3"
  using setSpeed_unconditional[of 3 "sys example_pending" example_options example_page example_player]
    setSpeed_unconditional[of 3 "sys (destroy example_player)" example_options example_page example_player]
    example_player_created
  by (simp add: example_pending_sys DEFAULT_SPEED_OPTIONS_def)

subsection \<open>Readiness\<close>

lemma quiet_ready: "quiet f \<Longrightarrow> isReady (state (f s)) = isReady (state s)"
  by (simp add: quiet_def)

lemma quiet_absent: "quiet f \<Longrightarrow> wavesurfer s = None \<Longrightarrow> wavesurfer (f s) = None"
  by (simp add: quiet_def)

lemma quiet_comp: "quiet f \<Longrightarrow> quiet g \<Longrightarrow> quiet (\<lambda>s. f (g s))"
  by (simp add: quiet_def)

lemma quiet_id: "quiet (\<lambda>s. s)"
  by (simp add: quiet_def)

lemma quiet_opt_call: "quiet (opt_call m)"
  by (simp add: quiet_def opt_call_def split: option.splits)

lemma quiet_page: "quiet (\<lambda>s. s\<lparr>page := f s\<rparr>)"
  by (simp add: quiet_def)

lemma quiet_announce: "quiet (announce m)"
  by (simp add: quiet_def announce_def)

lemma quiet_invoke: "quiet (invoke opts cb arg)"
  by (simp add: quiet_def invoke_def)

lemma quiet_play: "quiet play" "quiet pause" "quiet playPause" "quiet (seekTo x)"
  by (simp_all add: quiet_def play_def pause_def playPause_def seekTo_def opt_call_def
        split: option.splits)

lemma quiet_seekToTime: "quiet (seekToTime x)"
  using quiet_play(4) by (simp add: quiet_def seekToTime_def Let_def)

lemma quiet_skipForward: "quiet (skipForward c y)"
  using quiet_play(4) by (simp add: quiet_def skipForward_def Let_def)

lemma quiet_skipBack: "quiet (skipBack c y)"
  using quiet_play(4) by (simp add: quiet_def skipBack_def Let_def)

lemma quiet_setSpeed: "quiet (setSpeed x)"
  by (simp add: quiet_def setSpeed_def opt_call_def split: option.splits)

lemma quiet_setVolume: "quiet (setVolume x)"
  by (simp add: quiet_def setVolume_def opt_call_def Let_def split: option.splits)

lemma quiet_toggleMute: "quiet toggleMute"
  by (simp add: quiet_def toggleMute_def opt_call_def announce_def Let_def split: option.splits)

lemma quiet_track: "quiet (track k n d)"
  by (simp add: quiet_def track_def split: option.splits)

lemma quiet_set_vars: "quiet (set_vars k f)"
  by (simp add: quiet_def set_vars_def)

lemma wf_on_sys:
  assumes "wf p" and "quiet f"
  shows "wf (on_sys f p)" and "isReady (state (sys (on_sys f p))) = isReady (state (sys p))"
proof -
  show "isReady (state (sys (on_sys f p))) = isReady (state (sys p))"
    using assms(2) by (simp add: on_sys_def quiet_ready)
  have "wavesurfer (sys (on_sys f p)) \<noteq> None \<Longrightarrow> wavesurfer (sys p) \<noteq> None"
    using quiet_absent[OF assms(2), of "sys p"]
    by (cases "wavesurfer (sys p)") (simp_all add: on_sys_def)
  then show "wf (on_sys f p)"
    using assms(1) unfolding wf_def by (simp add: on_sys_def)
qed


lemma on_sys_comp: "on_sys f (on_sys g p) = on_sys (\<lambda>s. f (g s)) p"
  by (simp add: on_sys_def)

lemma wf_slots:
  assumes "wf p"
  shows "quiet (m_setSpeed p x)" "quiet (m_skipForward p y)" "quiet (m_skipBack p y)"
  using assms by (simp_all add: wf_def)

lemma core_listeners:
  "\<forall>(e, h) \<in> set (setupWavesurferEvents opts).
     if e = Ready then readies h else (\<forall>ws arg. quiet (h ws arg))"
  by (simp add: setupWavesurferEvents_def readies_def quiet_def invoke_def)

lemma core_listeners_Ready: "\<exists>h. (Ready, h) \<in> set (setupWavesurferEvents opts)"
  by (simp add: setupWavesurferEvents_def)

lemma initializePlayer_listeners:
  "listeners (initializePlayer pd p) = listeners p @ setupWavesurferEvents (options p)"
  by (simp add: initializePlayer_def on_sys_def Let_def setupKeyboardShortcuts_def
        split: prod.splits)

lemma wf_initializePlayer:
  assumes "wf p"
  shows "wf (initializePlayer pd p)"
  using assms core_listeners[of "options p"] core_listeners_Ready[of "options p"]
  unfolding wf_def
  by (simp add: initializePlayer_fields initializePlayer_listeners ball_Un) blast

lemma wf_player_object: "wf (player_object opts c pg)"
  unfolding wf_def
  by (simp add: player_object_fields quiet_setSpeed quiet_skipForward quiet_skipBack)

lemma wf_created:
  assumes "createPlayer opts pg = Inr p"
  shows "wf p" and "\<not> isReady (state (sys p))"
proof -
  from createPlayer_cases[OF assms] obtain c where
    p: "p = (if has_peaksUrl opts then player_object opts c pg
            else initializePlayer None (player_object opts c pg))" by blast
  show "wf p" using p by (simp add: wf_initializePlayer wf_player_object)
  show "\<not> isReady (state (sys p))"
    using p by (simp add: initializePlayer_fields player_object_fields createInitialState_def)
qed

lemma wf_add_listener:
  assumes "wf p" and "e \<noteq> Ready" and "\<And>ws arg. quiet (h ws arg)"
  shows "wf (p\<lparr>listeners := listeners p @ [(e, h)]\<rparr>)"
  using assms unfolding wf_def by (simp add: ball_Un)

lemma wf_set_setSpeed:
  assumes "wf p" and "\<And>x. quiet (f x)"
  shows "wf (p\<lparr>m_setSpeed := f\<rparr>)"
  using assms unfolding wf_def by simp

lemma wf_set_skip:
  assumes "wf p" and "\<And>x. quiet (f x)" and "\<And>x. quiet (g x)"
  shows "wf (p\<lparr>m_skipForward := f, m_skipBack := g\<rparr>)"
  using assms unfolding wf_def by simp

lemma wf_add_plugin:
  assumes "wf p" and "case d of None \<Rightarrow> True | Some f \<Rightarrow> quiet f"
  shows "wf (p\<lparr>plugins := plugins p @ [(n, d)]\<rparr>)"
  using assms unfolding wf_def by (simp add: ball_Un)

lemma analytics_steps_wf:
  assumes "wf p"
  shows "wf (analytics_tracker k cfg p)
      \<and> isReady (state (sys (analytics_tracker k cfg p))) = isReady (state (sys p))"
    and "wf (analytics_view k cfg p)
      \<and> isReady (state (sys (analytics_view k cfg p))) = isReady (state (sys p))"
    and "wf (analytics_onPlay k cfg p)
      \<and> isReady (state (sys (analytics_onPlay k cfg p))) = isReady (state (sys p))"
    and "wf (analytics_onPause k cfg p)
      \<and> isReady (state (sys (analytics_onPause k cfg p))) = isReady (state (sys p))"
    and "wf (analytics_onFinish k cfg p)
      \<and> isReady (state (sys (analytics_onFinish k cfg p))) = isReady (state (sys p))"
    and "wf (analytics_wrapSpeed k cfg p)
      \<and> isReady (state (sys (analytics_wrapSpeed k cfg p))) = isReady (state (sys p))"
    and "wf (analytics_wrapSkip k cfg p)
      \<and> isReady (state (sys (analytics_wrapSkip k cfg p))) = isReady (state (sys p))"
proof -
  have t: "quiet (\<lambda>s. set_vars k (\<lambda>v. v\<lparr>av_tracker := or_ref (ana_tracker cfg) (detectTracker (page s))\<rparr>) s)"
    by (simp add: quiet_def set_vars_def)
  show "wf (analytics_tracker k cfg p)
      \<and> isReady (state (sys (analytics_tracker k cfg p))) = isReady (state (sys p))"
    unfolding analytics_tracker_def using wf_on_sys[OF assms t] by simp
  have v: "quiet (\<lambda>s. track k ''episode_view''
                  [(''title'', JStr (getEpisodeTitle (options p) (page s))),
                   (''url'', JStr (pathname (page s)))]
                  (set_vars k (\<lambda>v. v\<lparr>av_hasTrackedView := True\<rparr>) s))"
    by (simp add: quiet_def set_vars_def track_def split: option.splits)
  show "wf (analytics_view k cfg p)
      \<and> isReady (state (sys (analytics_view k cfg p))) = isReady (state (sys p))"
    unfolding analytics_view_def using wf_on_sys[OF assms v] assms by simp
  show "wf (analytics_onPlay k cfg p)
      \<and> isReady (state (sys (analytics_onPlay k cfg p))) = isReady (state (sys p))"
    unfolding analytics_onPlay_def using assms
    by (auto intro!: wf_add_listener simp: quiet_def set_vars_def track_def split: option.splits)
  show "wf (analytics_onPause k cfg p)
      \<and> isReady (state (sys (analytics_onPause k cfg p))) = isReady (state (sys p))"
    unfolding analytics_onPause_def using assms
    by (auto intro!: wf_add_listener simp: quiet_def track_def split: option.splits)
  show "wf (analytics_onFinish k cfg p)
      \<and> isReady (state (sys (analytics_onFinish k cfg p))) = isReady (state (sys p))"
    unfolding analytics_onFinish_def using assms
    by (auto intro!: wf_add_listener simp: quiet_def set_vars_def track_def split: option.splits)
  show "wf (analytics_wrapSpeed k cfg p)
      \<and> isReady (state (sys (analytics_wrapSpeed k cfg p))) = isReady (state (sys p))"
    unfolding analytics_wrapSpeed_def Let_def using assms
    by (auto intro!: wf_set_setSpeed quiet_comp[OF quiet_track] wf_slots)
  show "wf (analytics_wrapSkip k cfg p)
      \<and> isReady (state (sys (analytics_wrapSkip k cfg p))) = isReady (state (sys p))"
    unfolding analytics_wrapSkip_def Let_def using assms
    by (auto intro!: wf_set_skip quiet_comp[OF quiet_track] wf_slots)
qed

lemma wf_use_analytics:
  assumes "wf p"
  shows "wf (use (analyticsPlugin k c) p)"
    and "isReady (state (sys (use (analyticsPlugin k c) p))) = isReady (state (sys p))"
proof -
  let ?cfg = "normalizeAnalyticsConfig c"
  let ?p0 = "p\<lparr>plugins := plugins p @ [(''analytics'', Some (set_vars k (\<lambda>v. v\<lparr>av_tracker := None\<rparr>)))]\<rparr>"
  have 0: "wf ?p0" using assms by (intro wf_add_plugin) (simp_all add: quiet_set_vars)
  have r0: "isReady (state (sys ?p0)) = isReady (state (sys p))" by simp
  note 1 = analytics_steps_wf(1)[OF 0, of k ?cfg]
  note 2 = analytics_steps_wf(2)[OF conjunct1[OF 1], of k ?cfg]
  note 3 = analytics_steps_wf(3)[OF conjunct1[OF 2], of k ?cfg]
  note 4 = analytics_steps_wf(4)[OF conjunct1[OF 3], of k ?cfg]
  note 5 = analytics_steps_wf(5)[OF conjunct1[OF 4], of k ?cfg]
  note 6 = analytics_steps_wf(6)[OF conjunct1[OF 5], of k ?cfg]
  note 7 = analytics_steps_wf(7)[OF conjunct1[OF 6], of k ?cfg]
  have u: "use (analyticsPlugin k c) p =
     (if \<not> ana_enabled ?cfg then ?p0
      else analytics_wrapSkip k ?cfg (analytics_wrapSpeed k ?cfg (analytics_onFinish k ?cfg
             (analytics_onPause k ?cfg (analytics_onPlay k ?cfg (analytics_view k ?cfg
               (analytics_tracker k ?cfg ?p0)))))))"
    by (simp add: use_def analyticsPlugin_def Let_def)
  show "wf (use (analyticsPlugin k c) p)"
    unfolding u using 0 7 by simp
  show "isReady (state (sys (use (analyticsPlugin k c) p))) = isReady (state (sys p))"
    unfolding u using r0 1 2 3 4 5 6 7 by simp
qed


lemma wf_use_transcript:
  assumes "wf p"
  shows "wf (use (transcriptPlugin f g) p)"
    and "isReady (state (sys (use (transcriptPlugin f g) p))) = isReady (state (sys p))"
proof -
  let ?p0 = "p\<lparr>plugins := plugins p @ [(''transcript'', Some (\<lambda>s. s\<lparr>page := g (page s)\<rparr>))]\<rparr>"
  have qg: "quiet (\<lambda>s. s\<lparr>page := g (page s)\<rparr>)" and qf: "quiet (\<lambda>s. s\<lparr>page := f (page s)\<rparr>)"
    by (simp_all add: quiet_def)
  have 0: "wf ?p0" using assms qg by (intro wf_add_plugin) simp_all
  have u: "use (transcriptPlugin f g) p = on_sys (\<lambda>s. s\<lparr>page := f (page s)\<rparr>) ?p0"
    by (simp add: use_def transcriptPlugin_def)
  show "wf (use (transcriptPlugin f g) p)" unfolding u using wf_on_sys(1)[OF 0 qf] .
  show "isReady (state (sys (use (transcriptPlugin f g) p))) = isReady (state (sys p))"
    unfolding u using wf_on_sys(2)[OF 0 qf] by simp
qed

lemma fold_run_cleanup_fields:
  "m_setSpeed (fold run_cleanup cs p) = m_setSpeed p"
  "m_skipForward (fold run_cleanup cs p) = m_skipForward p"
  "m_skipBack (fold run_cleanup cs p) = m_skipBack p"
  "listeners (fold run_cleanup cs p) = listeners p"
  "plugins (fold run_cleanup cs p) = plugins p"
  "options (fold run_cleanup cs p) = options p"
  "container (fold run_cleanup cs p) = container p"
  "sys (fold run_cleanup cs p) = sys p"
proof (induction cs arbitrary: p)
  case Nil
  { case 1 show ?case by simp }
  { case 2 show ?case by simp }
  { case 3 show ?case by simp }
  { case 4 show ?case by simp }
  { case 5 show ?case by simp }
  { case 6 show ?case by simp }
  { case 7 show ?case by simp }
  { case 8 show ?case by simp }
next
  case (Cons c cs)
  { case 1 show ?case using Cons.IH(1) by (cases c) simp_all }
  { case 2 show ?case using Cons.IH(2) by (cases c) simp_all }
  { case 3 show ?case using Cons.IH(3) by (cases c) simp_all }
  { case 4 show ?case using Cons.IH(4) by (cases c) simp_all }
  { case 5 show ?case using Cons.IH(5) by (cases c) simp_all }
  { case 6 show ?case using Cons.IH(6) by (cases c) simp_all }
  { case 7 show ?case using Cons.IH(7) by (cases c) simp_all }
  { case 8 show ?case using Cons.IH(8) by (cases c) simp_all }
qed

lemma wf_fold_run_cleanup:
  "wf p \<Longrightarrow> wf (fold run_cleanup cs p)"
  unfolding wf_def by (simp add: fold_run_cleanup_fields)

lemma wf_fold_plugin_destroy:
  assumes "wf q" and "\<forall>(n, d) \<in> set ds. case d of None \<Rightarrow> True | Some f \<Rightarrow> quiet f"
  shows "wf (fold (\<lambda>(name, d) q. case d of None \<Rightarrow> q | Some f \<Rightarrow> on_sys f q) ds q)
     \<and> isReady (state (sys (fold (\<lambda>(name, d) q. case d of None \<Rightarrow> q | Some f \<Rightarrow> on_sys f q) ds q)))
         = isReady (state (sys q))
     \<and> options (fold (\<lambda>(name, d) q. case d of None \<Rightarrow> q | Some f \<Rightarrow> on_sys f q) ds q) = options q
     \<and> container (fold (\<lambda>(name, d) q. case d of None \<Rightarrow> q | Some f \<Rightarrow> on_sys f q) ds q) = container q"
  using assms
proof (induction ds arbitrary: q)
  case Nil
  then show ?case by simp
next
  case (Cons x ds)
  obtain n d where x: "x = (n, d)" by (cases x)
  show ?case
  proof (cases d)
    case None
    with Cons x show ?thesis by simp
  next
    case (Some f)
    with Cons.prems x have qf: "quiet f" by simp
    have w: "wf (on_sys f q)" and r: "isReady (state (sys (on_sys f q))) = isReady (state (sys q))"
      using wf_on_sys[OF Cons.prems(1) qf] by simp_all
    have o: "options (on_sys f q) = options q" "container (on_sys f q) = container q"
      by (simp_all add: on_sys_def)
    from Cons.prems(2) have rest: "\<forall>(n, d) \<in> set ds. case d of None \<Rightarrow> True | Some f \<Rightarrow> quiet f"
      by simp
    from Cons.IH[OF w rest] r o x Some show ?thesis by simp
  qed
qed

lemma wf_plugins: "wf p \<Longrightarrow> \<forall>(n, d) \<in> set (plugins p). case d of None \<Rightarrow> True | Some f \<Rightarrow> quiet f"
  by (simp add: wf_def)

lemma wf_destroy:
  assumes "wf p"
  shows "wf (destroy p)" and "isReady (state (sys (destroy p))) = isReady (state (sys p))"
proof -
  let ?p1 = "fold run_cleanup (cleanupFns p) p"
  let ?p2 = "fold (\<lambda>(name, d) q. case d of None \<Rightarrow> q | Some f \<Rightarrow> on_sys f q) (plugins ?p1) ?p1"
  let ?f = "\<lambda>s. invoke (options ?p2) onError (ErrorArg ''Player destroyed'')
      ((\<lambda>s. s\<lparr>page := update_element (container ?p2)
                   (classList_remove ''wc-audio-player--initialized'') (page s)\<rparr>)
        ((\<lambda>s. s\<lparr>page := cleanupAnnouncer (page s)\<rparr>)
          ((\<lambda>s. (opt_call ws_destroy s)\<lparr>wavesurfer := None\<rparr>) s)))"
  have 1: "wf ?p1" using assms by (rule wf_fold_run_cleanup)
  have r1: "isReady (state (sys ?p1)) = isReady (state (sys p))"
    by (simp add: fold_run_cleanup_fields)
  note 2 = wf_fold_plugin_destroy[OF 1 wf_plugins[OF 1]]
  have qf: "quiet ?f"
    by (simp add: quiet_def invoke_def opt_call_def split: option.splits)
  have d: "destroy p = on_sys ?f ?p2"
    by (simp add: destroy_def Let_def on_sys_def)
  show "wf (destroy p)" unfolding d using wf_on_sys(1)[OF conjunct1[OF 2] qf] .
  show "isReady (state (sys (destroy p))) = isReady (state (sys p))"
    unfolding d using wf_on_sys(2)[OF conjunct1[OF 2] qf] 2 r1 by simp
qed

lemma fold_listeners_ready:
  assumes "\<forall>(e, h) \<in> set ls. if e = Ready then readies h else (\<forall>ws arg. quiet (h ws arg))"
  shows "isReady (state (fold (\<lambda>(e, h) s'. if e = ev then h ws arg s' else s') ls s))
     = (if ev = Ready \<and> (\<exists>h. (Ready, h) \<in> set ls) then True else isReady (state s))"
  using assms
proof (induction ls arbitrary: s rule: rev_induct)
  case Nil
  then show ?case by simp
next
  case (snoc x ls)
  obtain e h where x: "x = (e, h)" by (cases x)
  from snoc.prems have rest: "\<forall>(e, h) \<in> set ls. if e = Ready then readies h else (\<forall>ws arg. quiet (h ws arg))"
    by simp
  from snoc.prems x have hx: "if e = Ready then readies h else (\<forall>ws arg. quiet (h ws arg))"
    by simp
  show ?case
  proof (cases "e = ev")
    case False
    then show ?thesis using snoc.IH[OF rest, of s] x by auto
  next
    case True
    show ?thesis
    proof (cases "ev = Ready")
      case True
      with \<open>e = ev\<close> hx have "readies h" by simp
      then show ?thesis using x True \<open>e = ev\<close> by (auto simp: readies_def)
    next
      case False
      with \<open>e = ev\<close> hx have "quiet (h ws arg)" by simp
      then show ?thesis using snoc.IH[OF rest, of s] x False \<open>e = ev\<close>
        by (simp add: quiet_ready)
    qed
  qed
qed

lemma wf_listeners:
  "wf p \<Longrightarrow> \<forall>(e, h) \<in> set (listeners p). if e = Ready then readies h else (\<forall>ws arg. quiet (h ws arg))"
  by (simp add: wf_def)

lemma wf_emit:
  assumes "wf p"
  shows "wf (emit ev arg p)"
    and "isReady (state (sys (emit ev arg p)))
       = (if ev = Ready \<and> wavesurfer (sys p) \<noteq> None then True else isReady (state (sys p)))"
proof -
  show "wf (emit ev arg p)"
  proof (cases "wavesurfer (sys p)")
    case None
    then show ?thesis using assms by (simp add: emit_def)
  next
    case (Some ws)
    with assms have "\<exists>h. (Ready, h) \<in> set (listeners p)" by (simp add: wf_def)
    with assms Some show ?thesis unfolding wf_def by (simp add: emit_def on_sys_def)
  qed
  show "isReady (state (sys (emit ev arg p)))
       = (if ev = Ready \<and> wavesurfer (sys p) \<noteq> None then True else isReady (state (sys p)))"
  proof (cases "wavesurfer (sys p)")
    case None
    then show ?thesis by (simp add: emit_def)
  next
    case (Some ws)
    with assms have ex: "\<exists>h. (Ready, h) \<in> set (listeners p)" by (simp add: wf_def)
    show ?thesis
      using fold_listeners_ready[OF wf_listeners[OF assms], of ev ws arg "sys p"] ex Some
      by (simp add: emit_def on_sys_def)
  qed
qed

lemma if_cases: "P x \<Longrightarrow> P y \<Longrightarrow> P (if c then x else y)"
  by simp

lemma option_cases: "P a \<Longrightarrow> (\<And>x. P (b x)) \<Longrightarrow> P (case v of None \<Rightarrow> a | Some x \<Rightarrow> b x)"
  by (cases v) simp_all

text \<open>What the dispatch makes of the listener's result, when the listener is a quiet function.\<close>

lemma quiet_thrown:
  "\<exists>f. quiet f \<and> fst (case Inl x of Inl e \<Rightarrow> (p, False) | Inr r \<Rightarrow> r) = on_sys f p"
  by (rule exI[of _ "\<lambda>s. s"]) (simp add: quiet_id on_sys_def)

lemma quiet_form0:
  "\<exists>f. quiet f \<and> fst (case Inr (p, b) of Inl e \<Rightarrow> (p, False) | Inr r \<Rightarrow> r) = on_sys f p"
  by (rule exI[of _ "\<lambda>s. s"]) (simp add: quiet_id on_sys_def)

lemma quiet_form1:
  "quiet g \<Longrightarrow>
   \<exists>f. quiet f \<and> fst (case Inr (on_sys g p, b) of Inl e \<Rightarrow> (p, False) | Inr r \<Rightarrow> r) = on_sys f p"
  by (rule exI[of _ g]) simp

lemma quiet_form2:
  "quiet g \<Longrightarrow> quiet h \<Longrightarrow>
   \<exists>f. quiet f \<and> fst (case Inr (on_sys g (on_sys h p), b) of Inl e \<Rightarrow> (p, False) | Inr r \<Rightarrow> r)
          = on_sys f p"
  by (rule exI[of _ "\<lambda>s. g (h s)"]) (simp add: quiet_comp on_sys_comp)

lemma quiet_form3:
  "quiet g \<Longrightarrow> quiet h \<Longrightarrow> quiet k \<Longrightarrow>
   \<exists>f. quiet f \<and> fst (case Inr (on_sys g (on_sys h (on_sys k p)), b) of
                         Inl e \<Rightarrow> (p, False) | Inr r \<Rightarrow> r) = on_sys f p"
  by (rule exI[of _ "\<lambda>s. g (h (k s))"]) (simp add: quiet_def on_sys_comp)

lemma handleKeyDown_quiet:
  assumes "wf p"
  shows "\<exists>f. quiet f \<and>
     fst (case handleKeyDown cfg key p of Inl e \<Rightarrow> (p, False) | Inr r \<Rightarrow> r) = on_sys f p"
  unfolding handleKeyDown_def Let_def
  by (intro if_cases[where P = "\<lambda>r. \<exists>f. quiet f \<and>
            fst (case r of Inl e \<Rightarrow> (p, False) | Inr r \<Rightarrow> r) = on_sys f p"]
        option_cases[where P = "\<lambda>r. \<exists>f. quiet f \<and>
            fst (case r of Inl e \<Rightarrow> (p, False) | Inr r \<Rightarrow> r) = on_sys f p"]
        quiet_thrown quiet_form0 quiet_form1 quiet_form2 quiet_form3 wf_slots[OF assms]
        quiet_play quiet_toggleMute quiet_announce)

lemma wf_keydown_event:
  assumes "wf p"
  shows "wf (fst (keydown_event key p))
     \<and> isReady (state (sys (fst (keydown_event key p)))) = isReady (state (sys p))"
proof (cases "keydown p")
  case None
  then show ?thesis using assms by (simp add: keydown_event_def)
next
  case (Some cfg)
  from handleKeyDown_quiet[OF assms, of cfg key] obtain f where
    f: "quiet f"
      "fst (case handleKeyDown cfg key p of Inl e \<Rightarrow> (p, False) | Inr r \<Rightarrow> r) = on_sys f p"
    by blast
  have "fst (keydown_event key p) = on_sys f p"
    using Some f(2) by (simp add: keydown_event_def)
  then show ?thesis using wf_on_sys[OF assms f(1)] by simp
qed

lemma cycleSpeed_Some:
  "cycleSpeed p = Some q \<Longrightarrow> \<exists>v. q = on_sys (m_setSpeed p v) p"
  by (auto simp: cycleSpeed_def Let_def split: if_splits)

lemma wf_step:
  assumes "wf p" and "step a p = Some q"
  shows "wf q"
    and "isReady (state (sys q))
       = (if (\<exists>arg. a = Emit Ready arg) \<and> wavesurfer (sys p) \<noteq> None then True
          else isReady (state (sys p)))"
proof -
  have "wf q \<and> isReady (state (sys q))
       = (if (\<exists>arg. a = Emit Ready arg) \<and> wavesurfer (sys p) \<noteq> None then True
          else isReady (state (sys p)))"
  proof (cases a)
    case DoPlay
    then show ?thesis using assms wf_on_sys[OF assms(1) quiet_play(1)] by auto
  next
    case DoPause
    then show ?thesis using assms wf_on_sys[OF assms(1) quiet_play(2)] by auto
  next
    case DoPlayPause
    then show ?thesis using assms wf_on_sys[OF assms(1) quiet_play(3)] by auto
  next
    case (DoSeekTo x)
    then show ?thesis using assms wf_on_sys[OF assms(1) quiet_play(4)] by auto
  next
    case (DoSeekToTime x)
    then show ?thesis using assms wf_on_sys[OF assms(1) quiet_seekToTime] by auto
  next
    case (DoSkipForward x)
    then show ?thesis using assms wf_on_sys[OF assms(1) wf_slots(2)[OF assms(1)]] by auto
  next
    case (DoSkipBack x)
    then show ?thesis using assms wf_on_sys[OF assms(1) wf_slots(3)[OF assms(1)]] by auto
  next
    case (DoSetSpeed x)
    then show ?thesis using assms wf_on_sys[OF assms(1) wf_slots(1)[OF assms(1)]] by auto
  next
    case DoCycleSpeed
    with assms(2) obtain v where "q = on_sys (m_setSpeed p v) p"
      using cycleSpeed_Some by auto
    then show ?thesis using DoCycleSpeed wf_on_sys[OF assms(1) wf_slots(1)[OF assms(1)]] by auto
  next
    case (DoSetVolume x)
    then show ?thesis using assms wf_on_sys[OF assms(1) quiet_setVolume] by auto
  next
    case DoToggleMute
    then show ?thesis using assms wf_on_sys[OF assms(1) quiet_toggleMute] by auto
  next
    case (DoAnnounce m)
    then show ?thesis using assms wf_on_sys[OF assms(1) quiet_announce] by auto
  next
    case (DoUseAnalytics k c)
    then show ?thesis using assms wf_use_analytics[OF assms(1)] by auto
  next
    case (DoUseTranscript f g)
    then show ?thesis using assms wf_use_transcript[OF assms(1)] by auto
  next
    case DoDestroy
    then show ?thesis using assms wf_destroy[OF assms(1)] by auto
  next
    case (PeaksLoaded pd)
    with assms(2) have q: "q = (if pending p then initializePlayer pd p else p)" by simp
    show ?thesis unfolding q
      using PeaksLoaded assms(1) wf_initializePlayer[OF assms(1), of pd]
      by (simp add: initializePlayer_fields)
  next
    case (Emit ev arg)
    then show ?thesis using assms wf_emit[OF assms(1), of ev arg] by auto
  next
    case (KeyDown key)
    then show ?thesis using assms wf_keydown_event[OF assms(1)] by auto
  next
    case Timer
    have "quiet (\<lambda>s. s\<lparr>page := run_timer (page s)\<rparr>)" by (simp add: quiet_def)
    then show ?thesis using Timer assms wf_on_sys[OF assms(1)] by auto
  next
    case (EngineChange f)
    have "quiet (\<lambda>s. s\<lparr>wavesurfer := map_option f (wavesurfer s)\<rparr>)" by (simp add: quiet_def)
    then show ?thesis using EngineChange assms wf_on_sys[OF assms(1)] by auto
  next
    case (PageChange f)
    have "quiet (\<lambda>s. s\<lparr>page := f (page s)\<rparr>)" by (simp add: quiet_def)
    then show ?thesis using PageChange assms wf_on_sys[OF assms(1)] by auto
  qed
  then show "wf q"
    and "isReady (state (sys q))
       = (if (\<exists>arg. a = Emit Ready arg) \<and> wavesurfer (sys p) \<noteq> None then True
          else isReady (state (sys p)))" by simp_all
qed

lemma wf_run:
  assumes "wf p" and "run as p = Some q"
  shows "wf q \<and> (isReady (state (sys p)) \<longrightarrow> isReady (state (sys q)))"
  using assms
proof (induction as arbitrary: p)
  case Nil
  then show ?case by simp
next
  case (Cons a as)
  from Cons.prems(2) obtain r where r: "step a p = Some r" "run as r = Some q"
    by (auto split: option.splits)
  from wf_step[OF Cons.prems(1) r(1)] Cons.IH[OF _ r(2)] show ?case by auto
qed

text \<open>
  C7. \<open>isReady\<close> is false in the player \<open>createPlayer\<close> returns. Along every run
  of the player (calls of its interface, registrations of analytics plugins, the end of
  the peaks fetch, engine events, keys, timers, changes the engine or the page make on
  their own) \<open>isReady\<close>, once true, stays true. A single step changes it in one case
  only: the \<open>ready\<close> event of a bound engine sets it to true. No other event, the
  \<open>error\<close> event included, and no operation, \<open>destroy()\<close> included, changes it. A
  step is undefined only for \<open>cycleSpeed()\<close> over an empty options list.
\<close>

theorem isReady_monotonic:
  "(createPlayer opts pg = Inr p0 \<longrightarrow> \<not> isReady (state (sys p0)))
   \<and> (createPlayer opts pg = Inr p0 \<and> run as p0 = Some p \<and> run bs p = Some q
        \<and> isReady (state (sys p)) \<longrightarrow> isReady (state (sys q)))
   \<and> (createPlayer opts pg = Inr p0 \<and> run as p0 = Some p \<and> step a p = Some q \<longrightarrow>
        isReady (state (sys q))
          = (if (\<exists>arg. a = Emit Ready arg) \<and> wavesurfer (sys p) \<noteq> None then True
             else isReady (state (sys p))))
   \<and> (step a p = None \<longrightarrow> a = DoCycleSpeed \<and> speed_options (speedConfig p) = [])"
proof (intro conjI impI)
  assume "createPlayer opts pg = Inr p0"
  then show "\<not> isReady (state (sys p0))" by (rule wf_created(2))
next
  assume a: "createPlayer opts pg = Inr p0 \<and> run as p0 = Some p \<and> run bs p = Some q
        \<and> isReady (state (sys p))"
  then have "wf p" using wf_run[OF wf_created(1)] by blast
  with a show "isReady (state (sys q))" using wf_run[of p bs q] by blast
next
  assume a: "createPlayer opts pg = Inr p0 \<and> run as p0 = Some p \<and> step a p = Some q"
  then have "wf p" using wf_run[OF wf_created(1)] by blast
  with a show "isReady (state (sys q))
          = (if (\<exists>arg. a = Emit Ready arg) \<and> wavesurfer (sys p) \<noteq> None then True
             else isReady (state (sys p)))"
    using wf_step(2)[of p a q] by blast
next
  assume n: "step a p = None"
  then show "a = DoCycleSpeed" by (cases a) simp_all
  with n show "speed_options (speedConfig p) = []"
    using cycleSpeed_value[of p] by auto
qed

theorem isReady_monotonic_witness:
  "createPlayer example_options example_page = Inr example_player
   \<and> \<not> isReady (state (sys example_player))
   \<and> run [] example_player = Some example_player
   \<and> step (Emit Ready []) example_player = Some (emit Ready [] example_player)
   \<and> isReady (state (sys (emit Ready [] example_player)))
   \<and> run [Emit Ready []] example_player = Some (emit Ready [] example_player)
   \<and> run [Emit Error ''decode'', DoToggleMute, DoDestroy] (emit Ready [] example_player)
        = Some (destroy (on_sys toggleMute (emit Error ''decode'' (emit Ready [] example_player))))
   \<and> isReady (state (sys (destroy (on_sys toggleMute
          (emit Error ''decode'' (emit Ready [] example_player))))))"
proof -
  let ?r = "emit Ready [] example_player"
  let ?q = "destroy (on_sys toggleMute (emit Error ''decode'' ?r))"
  note c = example_player_created
  have b: "wavesurfer (sys example_player) \<noteq> None"
    using createPlayer_bound[OF c] by (simp add: example_options_def has_peaksUrl_def)
  have r0: "run [] example_player = Some example_player" by simp
  have s1: "step (Emit Ready []) example_player = Some ?r" by simp
  have r1: "run [Emit Ready []] example_player = Some ?r" by simp
  have r2: "run [Emit Error ''decode'', DoToggleMute, DoDestroy] ?r = Some ?q" by simp
  have i0: "\<not> isReady (state (sys example_player))"
    using isReady_monotonic[where opts = example_options and pg = example_page
            and ?p0.0 = example_player] c by blast
  have i1: "isReady (state (sys ?r))"
    using isReady_monotonic[where opts = example_options and pg = example_page
            and ?p0.0 = example_player and as = "[]" and p = example_player
            and a = "Emit Ready []" and q = ?r] c r0 s1 b
    by auto
  have i2: "isReady (state (sys ?q))"
    using isReady_monotonic[where opts = example_options and pg = example_page
            and ?p0.0 = example_player and as = "[Emit Ready []]" and p = ?r
            and bs = "[Emit Error ''decode'', DoToggleMute, DoDestroy]" and q = ?q] c r1 r2 i1
    by blast
  show ?thesis using c i0 r0 s1 i1 r1 r2 i2 by blast
qed

subsection \<open>Plugins that wrap a method\<close>

lemma analytics_steps_setSpeed:
  "m_setSpeed (analytics_tracker k cfg p) = m_setSpeed p"
  "m_setSpeed (analytics_view k cfg p) = m_setSpeed p"
  "m_setSpeed (analytics_onPlay k cfg p) = m_setSpeed p"
  "m_setSpeed (analytics_onPause k cfg p) = m_setSpeed p"
  "m_setSpeed (analytics_onFinish k cfg p) = m_setSpeed p"
  "m_setSpeed (analytics_wrapSkip k cfg p) = m_setSpeed p"
  by (simp_all add: analytics_tracker_def analytics_view_def analytics_onPlay_def
      analytics_onPause_def analytics_onFinish_def analytics_wrapSkip_def on_sys_def Let_def)

lemma use_analytics_setSpeed:
  assumes "ana_enabled (normalizeAnalyticsConfig c)"
    and "truthy (ana_trackSpeedChange (normalizeAnalyticsConfig c))"
  shows "m_setSpeed (use (analyticsPlugin k c) p) =
     (\<lambda>speed s. track k ''speed_change'' [(''speed'', JNum speed)] (m_setSpeed p speed s))"
  using assms
  by (simp add: use_def analyticsPlugin_def Let_def analytics_steps_setSpeed
        analytics_wrapSpeed_def)

lemma analytics_steps_sys:
  "sys (analytics_tracker k cfg p) =
     set_vars k (\<lambda>v. v\<lparr>av_tracker := or_ref (ana_tracker cfg) (detectTracker (page (sys p)))\<rparr>)
       (sys p)"
  "\<not> truthy (ana_trackView cfg) \<Longrightarrow> sys (analytics_view k cfg p) = sys p"
  "sys (analytics_onPlay k cfg p) = sys p"
  "sys (analytics_onPause k cfg p) = sys p"
  "sys (analytics_onFinish k cfg p) = sys p"
  "sys (analytics_wrapSpeed k cfg p) = sys p"
  "sys (analytics_wrapSkip k cfg p) = sys p"
  by (simp_all add: analytics_tracker_def analytics_view_def analytics_onPlay_def
      analytics_onPause_def analytics_onFinish_def analytics_wrapSpeed_def
      analytics_wrapSkip_def on_sys_def Let_def)

lemma use_analytics_sys:
  assumes "ana_enabled (normalizeAnalyticsConfig c)"
    and "\<not> truthy (ana_trackView (normalizeAnalyticsConfig c))"
  shows "sys (use (analyticsPlugin k c) p) =
     set_vars k (\<lambda>v. v\<lparr>av_tracker := or_ref (ana_tracker (normalizeAnalyticsConfig c))
                                     (detectTracker (page (sys p)))\<rparr>) (sys p)"
proof -
  let ?cfg = "normalizeAnalyticsConfig c"
  let ?p0 = "p\<lparr>plugins := plugins p @ [(''analytics'', Some (set_vars k (\<lambda>v. v\<lparr>av_tracker := None\<rparr>)))]\<rparr>"
  have u: "use (analyticsPlugin k c) p =
     analytics_wrapSkip k ?cfg (analytics_wrapSpeed k ?cfg (analytics_onFinish k ?cfg
       (analytics_onPause k ?cfg (analytics_onPlay k ?cfg (analytics_view k ?cfg
         (analytics_tracker k ?cfg ?p0))))))"
    using assms(1) by (simp add: use_def analyticsPlugin_def Let_def)
  show ?thesis
    unfolding u
    by (simp only: analytics_steps_sys(3-7) analytics_steps_sys(2)[OF assms(2)]
          analytics_steps_sys(1)) simp
qed

lemma example_analytics_normalized:
  "ana_enabled (normalizeAnalyticsConfig (example_analytics t))"
  "truthy (ana_trackSpeedChange (normalizeAnalyticsConfig (example_analytics t)))"
  "\<not> truthy (ana_trackView (normalizeAnalyticsConfig (example_analytics t)))"
  "ana_tracker (normalizeAnalyticsConfig (example_analytics t)) = Some (Custom t)"
  by (simp_all add: example_analytics_def not_false_def truthy_def DEFAULT_ANALYTICS_CONFIG_def)

lemma initializePlayer_page:
  "page (sys (initializePlayer pd p)) =
     update_element (container p) (classList_add ''wc-audio-player--initialized'') (page (sys p))"
  by (simp add: initializePlayer_def on_sys_def Let_def setupKeyboardShortcuts_def
        split: prod.splits)

lemma example_player_tracked: "tracked (page (sys example_player)) = []"
proof -
  have "\<not> has_peaksUrl example_options"
    by (simp add: example_options_def has_peaksUrl_def)
  with createPlayer_cases[OF example_player_created] obtain c where
    c: "example_player = initializePlayer None (player_object example_options c example_page)"
    by auto
  have "tracked (page (sys (initializePlayer None (player_object example_options c example_page))))
      = tracked example_page"
    by (simp add: initializePlayer_page player_object_fields update_element_def)
  then show ?thesis unfolding c by (simp add: example_page_def)
qed

text \<open>
  C5. \<open>use(plugin)\<close> runs the plugin's \<open>init\<close> on the live player object, so a plugin
  that wraps \<open>setSpeed\<close> wraps the function bound at that moment: after two such
  plugins, \<open>player.setSpeed\<close> is the second plugin's wrapper around the first plugin's
  wrapper around the original. For two analytics plugins that track speed changes, one
  call of \<open>player.setSpeed\<close> runs the original once, then the tracking of the plugin
  registered first, then the tracking of the plugin registered last, each exactly once:
  the wrapper registered last is outermost, and each wrapper chains to the function it
  found bound.
\<close>

theorem two_wrappers:
  "m_setSpeed (use (wrapping_plugin n2 w2) (use (wrapping_plugin n1 w1) p)) = w2 (w1 (m_setSpeed p))
   \<and> (ana_enabled (normalizeAnalyticsConfig c1)
       \<and> truthy (ana_trackSpeedChange (normalizeAnalyticsConfig c1))
       \<and> ana_enabled (normalizeAnalyticsConfig c2)
       \<and> truthy (ana_trackSpeedChange (normalizeAnalyticsConfig c2))
       \<longrightarrow> m_setSpeed (use (analyticsPlugin k2 c2) (use (analyticsPlugin k1 c1) p)) =
          (\<lambda>speed s. track k2 ''speed_change'' [(''speed'', JNum speed)]
             (track k1 ''speed_change'' [(''speed'', JNum speed)] (m_setSpeed p speed s))))
   \<and> (av_tracker (analytics_of s k1) = Some t1 \<and> av_tracker (analytics_of s k2) = Some t2 \<longrightarrow>
        tracked (page (track k2 ''speed_change'' d (track k1 ''speed_change'' d (setSpeed x s))))
          = tracked (page s) @ [(t1, ''speed_change'', d), (t2, ''speed_change'', d)]
        \<and> currentSpeed (state (track k2 ''speed_change'' d
              (track k1 ''speed_change'' d (setSpeed x s)))) = x)"
proof (intro conjI impI)
  show "m_setSpeed (use (wrapping_plugin n2 w2) (use (wrapping_plugin n1 w1) p))
      = w2 (w1 (m_setSpeed p))"
    by (simp add: use_def wrapping_plugin_def)
next
  assume "ana_enabled (normalizeAnalyticsConfig c1)
       \<and> truthy (ana_trackSpeedChange (normalizeAnalyticsConfig c1))
       \<and> ana_enabled (normalizeAnalyticsConfig c2)
       \<and> truthy (ana_trackSpeedChange (normalizeAnalyticsConfig c2))"
  then show "m_setSpeed (use (analyticsPlugin k2 c2) (use (analyticsPlugin k1 c1) p)) =
          (\<lambda>speed s. track k2 ''speed_change'' [(''speed'', JNum speed)]
             (track k1 ''speed_change'' [(''speed'', JNum speed)] (m_setSpeed p speed s)))"
    by (simp add: use_analytics_setSpeed)
next
  assume t: "av_tracker (analytics_of s k1) = Some t1 \<and> av_tracker (analytics_of s k2) = Some t2"
  then show "tracked (page (track k2 ''speed_change'' d (track k1 ''speed_change'' d (setSpeed x s))))
          = tracked (page s) @ [(t1, ''speed_change'', d), (t2, ''speed_change'', d)]"
    by (simp add: track_def setSpeed_def opt_call_def split: option.splits)
  from t show "currentSpeed (state (track k2 ''speed_change'' d
              (track k1 ''speed_change'' d (setSpeed x s)))) = x"
    by (simp add: track_def setSpeed_def opt_call_def split: option.splits)
qed

theorem two_wrappers_witness:
  "ana_enabled (normalizeAnalyticsConfig (example_analytics 1))
   \<and> truthy (ana_trackSpeedChange (normalizeAnalyticsConfig (example_analytics 2)))
   \<and> tracked (page (sys example_tracked)) = []
   \<and> tracked (page (m_setSpeed example_tracked 1.5 (sys example_tracked)))
       = [(Custom 1, ''speed_change'', [(''speed'', JNum 1.5)]),
          (Custom 2, ''speed_change'', [(''speed'', JNum 1.5)])]
   \<and> currentSpeed (state (m_setSpeed example_tracked 1.5 (sys example_tracked))) = 1.5"
proof -
  let ?s = "sys example_tracked"
  have s: "?s = set_vars 2 (\<lambda>v. v\<lparr>av_tracker := Some (Custom 2)\<rparr>)
                  (set_vars 1 (\<lambda>v. v\<lparr>av_tracker := Some (Custom 1)\<rparr>) (sys example_player))"
    by (simp add: example_tracked_def use_analytics_sys example_analytics_normalized or_ref_def)
  have t: "av_tracker (analytics_of ?s 1) = Some (Custom 1)
      \<and> av_tracker (analytics_of ?s 2) = Some (Custom 2)"
    by (simp add: s set_vars_def)
  have e: "tracked (page ?s) = []"
    by (simp add: s set_vars_def example_player_tracked)
  have m: "m_setSpeed example_tracked =
          (\<lambda>speed s. track 2 ''speed_change'' [(''speed'', JNum speed)]
             (track 1 ''speed_change'' [(''speed'', JNum speed)] (setSpeed speed s)))"
    using two_wrappers[where p = example_player and ?c1.0 = "example_analytics 1"
            and ?c2.0 = "example_analytics 2" and ?k2.0 = 2 and ?k1.0 = 1]
    by (simp add: example_tracked_def example_analytics_normalized example_player_fields)
  from two_wrappers[where s = ?s and ?k1.0 = 1 and ?t1.0 = "Custom 1" and ?k2.0 = 2
         and ?t2.0 = "Custom 2" and d = "[(''speed'', JNum 1.5)]" and x = "1.5"] t e
  show ?thesis by (simp add: m example_analytics_normalized)
qed

subsection \<open>The shared announcer\<close>

lemma on_page_of_fields:
  "page (sys (on_page_of other p)) = page (sys other)"
  "state (sys (on_page_of other p)) = state (sys p)"
  "wavesurfer (sys (on_page_of other p)) = wavesurfer (sys p)"
  "container (on_page_of other p) = container p"
  "plugins (on_page_of other p) = plugins p"
  by (simp_all add: on_page_of_def on_sys_def)

lemma on_sys_fields:
  "container (on_sys f p) = container p"
  "plugins (on_sys f p) = plugins p"
  "sys (on_sys f p) = f (sys p)"
  by (simp_all add: on_sys_def)

lemma toggleMute_page:
  "\<not> isMuted (state s) \<Longrightarrow> page (toggleMute s) = announceToScreenReader ''Muted'' (page s)"
  by (simp add: toggleMute_def announce_def opt_call_def Let_def split: option.splits)

lemma destroy_page:
  assumes "plugins p = []"
  shows "page (sys (destroy p)) =
     update_element (container p) (classList_remove ''wc-audio-player--initialized'')
       (cleanupAnnouncer (page (sys p)))"
  using assms
  by (simp add: destroy_def Let_def fold_run_cleanup_fields on_sys_def invoke_def opt_call_def
        split: option.splits)

lemma created_without_peaks:
  assumes "resolveContainer pg (opt_container opts) = Some c" and "\<not> has_peaksUrl opts"
  shows "projr (createPlayer opts pg) = initializePlayer None (player_object opts c pg)"
  using assms by (simp add: createPlayer_def Let_def)

lemma initialized_fields:
  "page (sys (initializePlayer None (player_object opts c pg)))
     = update_element c (classList_add ''wc-audio-player--initialized'') pg"
  "container (initializePlayer None (player_object opts c pg)) = c"
  "plugins (initializePlayer None (player_object opts c pg)) = []"
  "\<not> isMuted (state (sys (initializePlayer None (player_object opts c pg))))"
  "wavesurfer (sys (initializePlayer None (player_object opts c pg))) \<noteq> None"
  by (simp_all add: initializePlayer_page initializePlayer_fields player_object_fields
        createInitialState_def del: not_None_eq)

lemma example_no_peaksUrl: "\<not> has_peaksUrl example_options"
  "\<not> has_peaksUrl (example_options\<lparr>opt_container := Selector ''#player-2''\<rparr>)"
  by (simp_all add: example_options_def has_peaksUrl_def)

lemma first_player_eq:
  "first_player example_page = initializePlayer None (player_object example_options 1 example_page)"
  "first_player example_plain_page
     = initializePlayer None (player_object example_options 1 example_plain_page)"
proof -
  have "resolveContainer example_page (opt_container example_options) = Some 1"
    "resolveContainer example_plain_page (opt_container example_options) = Some 1"
    by (simp_all add: example_options_def example_page_def example_plain_page_def
          resolveContainer_def querySelector_def)
  then show "first_player example_page = initializePlayer None (player_object example_options 1 example_page)"
  "first_player example_plain_page
     = initializePlayer None (player_object example_options 1 example_plain_page)"
    unfolding first_player_def using created_without_peaks example_no_peaksUrl(1) by simp_all
qed

lemma second_player_eq:
  "second_player example_page = initializePlayer None
     (player_object (example_options\<lparr>opt_container := Selector ''#player-2''\<rparr>) 2
        (page (sys (first_player example_page))))"
  "second_player example_plain_page = initializePlayer None
     (player_object (example_options\<lparr>opt_container := Selector ''#player-2''\<rparr>) 2
        (page (sys (first_player example_plain_page))))"
proof -
  have "resolveContainer (page (sys (first_player example_page)))
          (opt_container (example_options\<lparr>opt_container := Selector ''#player-2''\<rparr>)) = Some 2"
    "resolveContainer (page (sys (first_player example_plain_page)))
          (opt_container (example_options\<lparr>opt_container := Selector ''#player-2''\<rparr>)) = Some 2"
    unfolding first_player_eq initialized_fields
    by (simp_all add: example_page_def example_plain_page_def example_options_def
          resolveContainer_def querySelector_def update_element_def classList_add_def)
  then show "second_player example_page = initializePlayer None
     (player_object (example_options\<lparr>opt_container := Selector ''#player-2''\<rparr>) 2
        (page (sys (first_player example_page))))"
  "second_player example_plain_page = initializePlayer None
     (player_object (example_options\<lparr>opt_container := Selector ''#player-2''\<rparr>) 2
        (page (sys (first_player example_plain_page))))"
    unfolding second_player_def using created_without_peaks example_no_peaksUrl(2) by simp_all
qed

lemma second_page:
  "page (sys (second_player example_page)) = initialized_page [''wc-audio-player'']"
  "page (sys (second_player example_plain_page)) = initialized_page []"
  unfolding second_player_eq first_player_eq initialized_fields
  by (simp_all add: update_element_def classList_add_def example_page_def
        example_plain_page_def initialized_page_def)

lemma announce_initialized:
  "announceToScreenReader ''Muted'' (initialized_page cs) = muted_page cs"
  by (simp add: announceToScreenReader_def getAnnouncer_def lookup_or_create_announcer_def
        getElementById_def fresh_node_def update_element_def initialized_page_def muted_page_def
        example_page_def ANNOUNCER_ID_def)

lemma first_muted_page:
  "page (sys (first_muted example_page)) = muted_page [''wc-audio-player'']"
  "page (sys (first_muted example_plain_page)) = muted_page []"
  by (simp_all add: first_muted_def on_sys_fields toggleMute_page on_page_of_fields
        first_player_eq(1,2) initialized_fields second_page announce_initialized)

lemma first_muted_fields:
  "container (first_muted pg) = container (first_player pg)"
  "plugins (first_muted pg) = plugins (first_player pg)"
  by (simp_all add: first_muted_def on_sys_fields on_page_of_fields)

lemma cleanup_muted:
  "cleanupAnnouncer (muted_page [''wc-audio-player'']) = muted_page [''wc-audio-player'']"
  "cleanupAnnouncer (muted_page []) = (initialized_page [])\<lparr>timers := [(3, ''Muted'')]\<rparr>"
  by (simp_all add: cleanupAnnouncer_def contains_def querySelectorAll_class_def remove_element_def
        muted_page_def initialized_page_def example_page_def ANNOUNCER_ID_def)

lemma first_destroyed_page:
  "page (sys (first_destroyed example_page)) =
     update_element 1 (classList_remove ''wc-audio-player--initialized'') (muted_page [''wc-audio-player''])"
  "page (sys (first_destroyed example_plain_page)) =
     update_element 1 (classList_remove ''wc-audio-player--initialized'')
       ((initialized_page [])\<lparr>timers := [(3, ''Muted'')]\<rparr>)"
  by (simp_all add: first_destroyed_def destroy_page first_muted_fields first_player_eq
        initialized_fields first_muted_page cleanup_muted)

lemma both_destroyed_page:
  "page (sys (both_destroyed example_page)) =
     update_element 2 (classList_remove ''wc-audio-player--initialized'')
       (update_element 1 (classList_remove ''wc-audio-player--initialized'') (muted_page [''wc-audio-player'']))"
proof -
  have "cleanupAnnouncer (update_element 1 (classList_remove ''wc-audio-player--initialized'') (muted_page [''wc-audio-player'']))
     = update_element 1 (classList_remove ''wc-audio-player--initialized'') (muted_page [''wc-audio-player''])"
    by (simp add: cleanupAnnouncer_def contains_def querySelectorAll_class_def update_element_def
        classList_remove_def muted_page_def initialized_page_def example_page_def)
  then show ?thesis
    by (simp add: both_destroyed_def destroy_page on_page_of_fields second_player_eq
          initialized_fields first_destroyed_page)
qed

text \<open>
  C6 does not hold of the code. \<open>cleanupAnnouncer\<close> counts the elements of class
  \<open>wc-audio-player\<close> in the document, and \<open>destroy()\<close> removes neither the player's
  container nor that class. On the page marked up as the README shows (two containers of
  class \<open>wc-audio-player\<close>), the announcer created by the first player's
  \<open>toggleMute()\<close> is still in the document after the first player is destroyed, and
  still there after both are: it is never removed. On a page whose containers do not
  carry the class, destroying the first player removes the announcer while the second
  player still has its engine bound.
\<close>

theorem announcer_teardown:
  "announcerElement (page (sys (first_muted example_page))) = Some 3
   \<and> contains (page (sys (first_muted example_page))) 3
   \<and> contains (page (sys (first_destroyed example_page))) 3
   \<and> wavesurfer (sys (first_destroyed example_page)) = None
   \<and> wavesurfer (sys (both_destroyed example_page)) = None
   \<and> announcerElement (page (sys (both_destroyed example_page))) = Some 3
   \<and> contains (page (sys (both_destroyed example_page))) 3
   \<and> announcerElement (page (sys (first_muted example_plain_page))) = Some 3
   \<and> contains (page (sys (first_muted example_plain_page))) 3
   \<and> wavesurfer (sys (second_player example_plain_page)) \<noteq> None
   \<and> \<not> contains (page (sys (first_destroyed example_plain_page))) 3"
proof (intro conjI)
  show "announcerElement (page (sys (first_muted example_page))) = Some 3"
    "contains (page (sys (first_muted example_page))) 3"
    "announcerElement (page (sys (first_muted example_plain_page))) = Some 3"
    "contains (page (sys (first_muted example_plain_page))) 3"
    unfolding first_muted_page
    by (simp_all add: contains_def muted_page_def initialized_page_def example_page_def)
  show "contains (page (sys (first_destroyed example_page))) 3"
    "\<not> contains (page (sys (first_destroyed example_plain_page))) 3"
    unfolding first_destroyed_page
    by (simp_all add: contains_def update_element_def classList_remove_def muted_page_def
          initialized_page_def example_page_def)
  show "wavesurfer (sys (first_destroyed example_page)) = None"
    "wavesurfer (sys (both_destroyed example_page)) = None"
    by (simp_all add: first_destroyed_def both_destroyed_def destroy_wavesurfer)
  show "announcerElement (page (sys (both_destroyed example_page))) = Some 3"
    "contains (page (sys (both_destroyed example_page))) 3"
    unfolding both_destroyed_page
    by (simp_all add: contains_def update_element_def classList_remove_def muted_page_def
          initialized_page_def example_page_def)
  show "wavesurfer (sys (second_player example_plain_page)) \<noteq> None"
    unfolding second_player_eq by (rule initialized_fields(5))
qed

end
